theory Spec2Isabelle
  imports Main "HOL-Library.Char_ord" "HOL-Library.List_Lexorder"
begin

section \<open>JavaScript values that cross the remote-call channel\<close>

text \<open>
  The store receives every remote result as \<^verbatim>\<open>unknown\<close> and inspects its shape at run
  time, so results are modelled as untyped JSON-like values. Numbers are the integral
  ones (a fractional number passes every test below like a nonzero integer; NaN is not
  modelled). An object is an association list of its own properties.
\<close>

datatype jsval =
    JUndefined
  | JNull
  | JBool bool
  | JNum int
  | JStr string
  | JArr "jsval list"
  | JObj "(string \<times> jsval) list"

text \<open>A thrown value: an \<^verbatim>\<open>Error\<close> instance with its message, or anything else.\<close>

datatype thrown = ErrorObj string | Thrown jsval

text \<open>How an awaited remote promise settles.\<close>

datatype settlement = Resolve jsval | Reject thrown

fun truthy :: "jsval \<Rightarrow> bool" where
  "truthy JUndefined = False"
| "truthy JNull = False"
| "truthy (JBool b) = b"
| "truthy (JNum n) = (n \<noteq> 0)"
| "truthy (JStr s) = (s \<noteq> [])"
| "truthy (JArr xs) = True"
| "truthy (JObj fs) = True"

text \<open>\<^verbatim>\<open>typeof v === 'object'\<close>\<close>

fun typeof_object :: "jsval \<Rightarrow> bool" where
  "typeof_object JNull = True"
| "typeof_object (JArr xs) = True"
| "typeof_object (JObj fs) = True"
| "typeof_object v = False"

text \<open>
  \<^verbatim>\<open>k in v\<close> and \<^verbatim>\<open>v.k\<close> for the property names the store reads (\<^verbatim>\<open>success\<close>,
  \<^verbatim>\<open>data\<close>, \<^verbatim>\<open>error\<close>, \<^verbatim>\<open>messages\<close>): only a plain object can carry them; arrays and
  primitives answer \<^verbatim>\<open>false\<close> and \<^verbatim>\<open>undefined\<close>.
\<close>

fun has_property :: "string \<Rightarrow> jsval \<Rightarrow> bool" where
  "has_property k (JObj fs) = (k \<in> set (map fst fs))"
| "has_property k v = False"

fun get_property :: "jsval \<Rightarrow> string \<Rightarrow> jsval" where
  "get_property (JObj fs) k = (case map_of fs k of Some v \<Rightarrow> v | None \<Rightarrow> JUndefined)"
| "get_property v k = JUndefined"

definition nullish :: "jsval \<Rightarrow> bool" where
  "nullish v \<longleftrightarrow> v = JUndefined \<or> v = JNull"

text \<open>\<^verbatim>\<open>v?.k\<close>, \<^verbatim>\<open>v ?? d\<close> and \<^verbatim>\<open>v || d\<close>\<close>

definition optional_chain :: "jsval \<Rightarrow> string \<Rightarrow> jsval" where
  "optional_chain v k = (if nullish v then JUndefined else get_property v k)"

definition nullish_coalesce :: "jsval \<Rightarrow> jsval \<Rightarrow> jsval" where
  "nullish_coalesce v d = (if nullish v then d else v)"

definition logical_or :: "jsval \<Rightarrow> jsval \<Rightarrow> jsval" where
  "logical_or v d = (if truthy v then v else d)"

fun isArray :: "jsval \<Rightarrow> bool" where
  "isArray (JArr xs) = True"
| "isArray v = False"

subsection \<open>ToString, Error construction, the default array sort\<close>

fun digits :: "nat \<Rightarrow> string" where
  "digits n = (if n < 10 then [char_of (48 + n)]
               else digits (n div 10) @ [char_of (48 + n mod 10)])"

declare digits.simps [simp del]

definition join_comma :: "string list \<Rightarrow> string" where
  "join_comma ss = (case ss of [] \<Rightarrow> [] | s # rest \<Rightarrow> s @ concat (map (\<lambda>t. '','' @ t) rest))"

text \<open>
  ToString. A \<open>JNum\<close> stands for an integer that a JavaScript number holds exactly and
  prints as a plain numeral (magnitude below \<open>10\<^sup>2\<^sup>1\<close>; from there on JavaScript prints
  an exponent form, which is not modelled). The store applies ToString to a number only
  when a remote result is ill-typed: a numeric \<^verbatim>\<open>error\<close> field, or numbers in a topic list.
\<close>

fun to_string :: "jsval \<Rightarrow> string" where
  "to_string JUndefined = ''undefined''"
| "to_string JNull = ''null''"
| "to_string (JBool b) = (if b then ''true'' else ''false'')"
| "to_string (JNum n) = (if n < 0 then ''-'' @ digits (nat (- n)) else digits (nat n))"
| "to_string (JStr s) = s"
| "to_string (JArr xs) =
     join_comma (map (\<lambda>x. if x = JUndefined \<or> x = JNull then [] else to_string x) xs)"
| "to_string (JObj fs) = ''[object Object]''"

text \<open>\<^verbatim>\<open>new Error(v)\<close> for a value that is not \<^verbatim>\<open>undefined\<close>: the message is ToString of it.\<close>

definition new_Error :: "jsval \<Rightarrow> thrown" where
  "new_Error v = ErrorObj (to_string v)"

text \<open>\<^verbatim>\<open>error instanceof Error ? error.message : fallback\<close>\<close>

fun message_or :: "string \<Rightarrow> thrown \<Rightarrow> string" where
  "message_or fallback (ErrorObj m) = m"
| "message_or fallback (Thrown v) = fallback"

text \<open>
  \<^verbatim>\<open>topics.sort()\<close>: on an array, the stable default sort (by the code units of ToString,
  \<^verbatim>\<open>undefined\<close> last); on anything else the engine raises a TypeError, whose text is the
  one V8 prints.
\<close>

definition cannot_read :: "string \<Rightarrow> string" where
  "cannot_read what =
     ''Cannot read properties of '' @ what @ '' (reading '' @ [CHR 0x27] @ ''sort'' @ [CHR 0x27] @ '')''"

definition array_sort :: "jsval list \<Rightarrow> jsval list" where
  "array_sort xs =
     sort_key to_string (filter (\<lambda>x. x \<noteq> JUndefined) xs) @ filter (\<lambda>x. x = JUndefined) xs"

definition sort_method :: "jsval \<Rightarrow> thrown + jsval list" where
  "sort_method v =
     (case v of
        JArr xs \<Rightarrow> Inr (array_sort xs)
      | JUndefined \<Rightarrow> Inl (ErrorObj (cannot_read ''undefined''))
      | JNull \<Rightarrow> Inl (ErrorObj (cannot_read ''null''))
      | _ \<Rightarrow> Inl (ErrorObj ''topics.sort is not a function''))"

section \<open>The topic store (src/stores/topic.store.ts)\<close>

record MessageToRepublish =
  key :: "string option"
  val :: string
  headers :: "(string \<times> string) list option"
  partition :: "int option"

text \<open>
  The observable state. \<^verbatim>\<open>topics\<close> only ever receives arrays (the empty literal, the
  result of \<^verbatim>\<open>sort\<close>, the result of \<^verbatim>\<open>filter\<close>); the metadata, configuration and message
  slots receive whatever the remote call delivered.
\<close>

record TopicState =
  topics :: "jsval list"
  selectedTopic :: "string option"
  topicMetadata :: jsval
  topicConfig :: jsval
  messages :: jsval
  messageToRepublish :: "MessageToRepublish option"
  isLoading :: bool
  isLoadingTopics :: bool
  isLoadingMetadata :: bool
  isLoadingConfig :: bool
  isLoadingMessages :: bool
  error :: "string option"

definition initial_state :: TopicState where
  "initial_state =
     \<lparr>topics = [], selectedTopic = None, topicMetadata = JNull, topicConfig = JArr [],
      messages = JArr [], messageToRepublish = None, isLoading = False,
      isLoadingTopics = False, isLoadingMetadata = False, isLoadingConfig = False,
      isLoadingMessages = False, error = None\<rparr>"

text \<open>The physical calls made on \<^verbatim>\<open>window.api.kafka\<close>.\<close>

datatype remote_call =
    GetTopics string
  | GetTopicMetadata string string
  | GetTopicConfig string string
  | CreateTopic string jsval
  | DeleteTopic string string
  | GetMessages string string jsval
  | ProduceMessage string string jsval

text \<open>
  An async function suspended at an \<^verbatim>\<open>await\<close>: which function, the locals it still needs,
  and the promise it returned to its caller.
\<close>

datatype continuation =
    K_loadTopics string nat
  | K_loadTopicMetadata nat
  | K_loadTopicConfig nat
  | K_createTopic_create string nat
  | K_createTopic_list nat
  | K_deleteTopic string nat
  | K_loadMessages nat nat
  | K_produceMessage nat

datatype promise_state = Pending | Fulfilled | Rejected thrown

text \<open>
  Everything the module owns: the store state, every state published by \<^verbatim>\<open>set\<close> (each
  \<^verbatim>\<open>set\<close> call is one transition seen by subscribers), the two module-level variables,
  the suspended functions keyed by the remote call they await, the promises handed to
  callers, and the remote calls made so far. The request counter starts at 0 and only
  grows by one; JavaScript number arithmetic is exact on such counts below \<open>2\<^sup>5\<^sup>3\<close>, which
  no run reaches, so the counter is a natural number.

  A promise is named by a number. An async function that returns a promise \<^verbatim>\<open>q\<close> hands its
  caller a promise resolved with \<^verbatim>\<open>q\<close>, which settles exactly as \<^verbatim>\<open>q\<close> does; the model names
  what the caller receives by \<^verbatim>\<open>q\<close>.
\<close>

record runtime =
  state :: TopicState
  transitions :: "TopicState list"
  messageRequestId :: nat
  inFlightRequests :: "string \<rightharpoonup> nat"
  awaiting :: "nat \<rightharpoonup> continuation"
  promises :: "nat \<rightharpoonup> promise_state"
  remote_calls :: "remote_call list"
  next_id :: nat

definition initial_runtime :: runtime where
  "initial_runtime =
     \<lparr>state = initial_state, transitions = [], messageRequestId = 0,
      inFlightRequests = Map.empty, awaiting = Map.empty, promises = Map.empty,
      remote_calls = [], next_id = 0\<rparr>"

definition set_state :: "(TopicState \<Rightarrow> TopicState) \<Rightarrow> runtime \<Rightarrow> runtime" where
  "set_state f s = s\<lparr>state := f (state s), transitions := transitions s @ [f (state s)]\<rparr>"

text \<open>
  Entering an async function body up to its first \<^verbatim>\<open>await\<close> of a remote call: the call is
  made, the function is suspended on it, and its promise is pending. The remote call and
  the promise share the fresh number.
\<close>

definition start_async :: "remote_call \<Rightarrow> (nat \<Rightarrow> continuation) \<Rightarrow> runtime \<Rightarrow> nat \<times> runtime" where
  "start_async rc k s =
     (next_id s,
      s\<lparr>awaiting := (awaiting s)(next_id s \<mapsto> k (next_id s)),
        promises := (promises s)(next_id s \<mapsto> Pending),
        remote_calls := remote_calls s @ [rc],
        next_id := next_id s + 1\<rparr>)"

text \<open>A later \<^verbatim>\<open>await\<close> of a remote call inside a function that is already running.\<close>

definition await_remote :: "remote_call \<Rightarrow> continuation \<Rightarrow> runtime \<Rightarrow> runtime" where
  "await_remote rc k s =
     s\<lparr>awaiting := (awaiting s)(next_id s \<mapsto> k),
       remote_calls := remote_calls s @ [rc],
       next_id := next_id s + 1\<rparr>"

definition fulfil :: "nat \<Rightarrow> runtime \<Rightarrow> runtime" where
  "fulfil p s = s\<lparr>promises := (promises s)(p \<mapsto> Fulfilled)\<rparr>"

definition reject :: "nat \<Rightarrow> thrown \<Rightarrow> runtime \<Rightarrow> runtime" where
  "reject p e s = s\<lparr>promises := (promises s)(p \<mapsto> Rejected e)\<rparr>"

subsection \<open>Result normalisation\<close>

text \<open>\<^verbatim>\<open>result && typeof result === 'object' && 'success' in result\<close>\<close>

definition is_ipc_response :: "jsval \<Rightarrow> bool" where
  "is_ipc_response result \<longleftrightarrow>
     truthy result \<and> typeof_object result \<and> has_property ''success'' result"

text \<open>\<^verbatim>\<open>throw new Error(typedResult.error || fallback)\<close>\<close>

definition failure_of :: "jsval \<Rightarrow> string \<Rightarrow> thrown" where
  "failure_of typedResult fallback =
     new_Error (logical_or (get_property typedResult ''error'') (JStr fallback))"

text \<open>Lines 69-79 (and again 150-160): the topic list, sorted, or what was thrown.\<close>

definition sorted_topics_of :: "jsval \<Rightarrow> thrown + jsval list" where
  "sorted_topics_of result =
     (if is_ipc_response result then
        (if \<not> truthy (get_property result ''success'')
         then Inl (failure_of result ''Failed to load topics'')
         else sort_method (nullish_coalesce (get_property result ''data'') (JArr [])))
      else sort_method result)"

text \<open>Lines 101-110.\<close>

definition metadata_of :: "jsval \<Rightarrow> thrown + jsval" where
  "metadata_of result =
     (if is_ipc_response result then
        (if \<not> truthy (get_property result ''success'')
         then Inl (failure_of result ''Failed to load topic metadata'')
         else Inr (get_property result ''data''))
      else Inr result)"

text \<open>Lines 122-131.\<close>

definition config_of :: "jsval \<Rightarrow> thrown + jsval" where
  "config_of result =
     (if is_ipc_response result then
        (if \<not> truthy (get_property result ''success'')
         then Inl (failure_of result ''Failed to load topic config'')
         else Inr (nullish_coalesce (get_property result ''data'') (JArr [])))
      else Inr result)"

text \<open>Lines 143-148, 172-177 and 228-233: only the success flag is looked at.\<close>

definition check_success :: "jsval \<Rightarrow> string \<Rightarrow> thrown option" where
  "check_success result fallback =
     (if is_ipc_response result \<and> \<not> truthy (get_property result ''success'')
      then Some (failure_of result fallback) else None)"

text \<open>Lines 199-215: the three shapes of a message page.\<close>

definition messages_of :: "jsval \<Rightarrow> thrown + jsval" where
  "messages_of result =
     (if is_ipc_response result then
        (if \<not> truthy (get_property result ''success'')
         then Inl (failure_of result ''Failed to load messages'')
         else Inr (nullish_coalesce
                     (optional_chain (get_property result ''data'') ''messages'') (JArr [])))
      else if isArray result then Inr result
      else Inr (nullish_coalesce (optional_chain result ''messages'') (JArr [])))"

subsection \<open>The actions, up to their first suspension\<close>

text \<open>
  Each async action runs synchronously up to its first \<^verbatim>\<open>await\<close> and returns its promise.
  A remote call answers asynchronously (the remote-call interface returns a promise), and
  an \<^verbatim>\<open>await\<close> never resumes within the same synchronous run.
\<close>

definition loadTopics :: "string \<Rightarrow> runtime \<Rightarrow> nat \<times> runtime" where
  "loadTopics connectionId s =
     (let requestKey = ''loadTopics:'' @ connectionId in
      case inFlightRequests s requestKey of
        Some existingRequest \<Rightarrow> (existingRequest, s)
      | None \<Rightarrow>
          (let s1 = set_state (\<lambda>st. st\<lparr>isLoadingTopics := True, isLoading := True,
                                        error := None\<rparr>) s;
               (promise, s2) = start_async (GetTopics connectionId) (K_loadTopics requestKey) s1
           in (promise, s2\<lparr>inFlightRequests := (inFlightRequests s2)(requestKey \<mapsto> promise)\<rparr>)))"

definition selectTopic :: "string option \<Rightarrow> runtime \<Rightarrow> runtime" where
  "selectTopic topic s =
     set_state (\<lambda>st. st\<lparr>selectedTopic := topic, topicMetadata := JNull,
                          topicConfig := JArr [], messages := JArr []\<rparr>) s"

definition loadTopicMetadata :: "string \<Rightarrow> string \<Rightarrow> runtime \<Rightarrow> nat \<times> runtime" where
  "loadTopicMetadata connectionId topic s =
     start_async (GetTopicMetadata connectionId topic) K_loadTopicMetadata
       (set_state (\<lambda>st. st\<lparr>isLoadingMetadata := True, error := None\<rparr>) s)"

definition loadTopicConfig :: "string \<Rightarrow> string \<Rightarrow> runtime \<Rightarrow> nat \<times> runtime" where
  "loadTopicConfig connectionId topic s =
     start_async (GetTopicConfig connectionId topic) K_loadTopicConfig
       (set_state (\<lambda>st. st\<lparr>isLoadingConfig := True, error := None\<rparr>) s)"

definition createTopic :: "string \<Rightarrow> jsval \<Rightarrow> runtime \<Rightarrow> nat \<times> runtime" where
  "createTopic connectionId config s =
     start_async (CreateTopic connectionId config) (K_createTopic_create connectionId)
       (set_state (\<lambda>st. st\<lparr>isLoadingTopics := True, isLoading := True, error := None\<rparr>) s)"

definition deleteTopic :: "string \<Rightarrow> string \<Rightarrow> runtime \<Rightarrow> nat \<times> runtime" where
  "deleteTopic connectionId topic s =
     start_async (DeleteTopic connectionId topic) (K_deleteTopic topic)
       (set_state (\<lambda>st. st\<lparr>isLoadingTopics := True, isLoading := True, error := None\<rparr>) s)"

definition loadMessages :: "string \<Rightarrow> string \<Rightarrow> jsval \<Rightarrow> runtime \<Rightarrow> nat \<times> runtime" where
  "loadMessages connectionId topic options s =
     (let currentRequestId = messageRequestId s + 1;
          s1 = s\<lparr>messageRequestId := currentRequestId\<rparr>;
          s2 = set_state (\<lambda>st. st\<lparr>isLoadingMessages := True, error := None\<rparr>) s1
      in start_async (GetMessages connectionId topic options) (K_loadMessages currentRequestId) s2)"

definition produceMessage :: "string \<Rightarrow> string \<Rightarrow> jsval \<Rightarrow> runtime \<Rightarrow> nat \<times> runtime" where
  "produceMessage connectionId topic message s =
     start_async (ProduceMessage connectionId topic message) K_produceMessage
       (set_state (\<lambda>st. st\<lparr>isLoading := True, error := None\<rparr>) s)"

definition setMessageToRepublish :: "MessageToRepublish option \<Rightarrow> runtime \<Rightarrow> runtime" where
  "setMessageToRepublish message s = set_state (\<lambda>st. st\<lparr>messageToRepublish := message\<rparr>) s"

definition clearMessages :: "runtime \<Rightarrow> runtime" where
  "clearMessages s = set_state (\<lambda>st. st\<lparr>messages := JArr []\<rparr>) s"

definition reset :: "runtime \<Rightarrow> runtime" where
  "reset s = set_state (\<lambda>st. initial_state) s"

subsection \<open>The actions, resumed when the awaited remote call settles\<close>

text \<open>The value of an \<^verbatim>\<open>await\<close> inside \<^verbatim>\<open>try\<close>: a rejection enters the \<^verbatim>\<open>catch\<close> block.\<close>

fun awaited :: "settlement \<Rightarrow> (jsval \<Rightarrow> thrown + 'a) \<Rightarrow> thrown + 'a" where
  "awaited (Resolve result) f = f result"
| "awaited (Reject e) f = Inl e"

fun awaited_check :: "settlement \<Rightarrow> string \<Rightarrow> thrown option" where
  "awaited_check (Resolve result) fallback = check_success result fallback"
| "awaited_check (Reject e) fallback = Some e"

definition topics_failed :: "string \<Rightarrow> thrown \<Rightarrow> TopicState \<Rightarrow> TopicState" where
  "topics_failed fallback e st =
     st\<lparr>error := Some (message_or fallback e), isLoadingTopics := False, isLoading := False\<rparr>"

fun resume :: "continuation \<Rightarrow> settlement \<Rightarrow> runtime \<Rightarrow> runtime" where
  "resume (K_loadTopics requestKey p) outcome s =
     (let s1 = (case awaited outcome sorted_topics_of of
                  Inr ts \<Rightarrow> set_state (\<lambda>st. st\<lparr>topics := ts, isLoadingTopics := False,
                                                isLoading := False\<rparr>) s
                | Inl e \<Rightarrow> set_state (topics_failed ''Failed to load topics'' e) s)
      in fulfil p (s1\<lparr>inFlightRequests := (inFlightRequests s1)(requestKey := None)\<rparr>))"
| "resume (K_loadTopicMetadata p) outcome s =
     (case awaited outcome metadata_of of
        Inr metadata \<Rightarrow>
          fulfil p (set_state (\<lambda>st. st\<lparr>topicMetadata := metadata,
                                         isLoadingMetadata := False\<rparr>) s)
      | Inl e \<Rightarrow>
          fulfil p (set_state (\<lambda>st. st\<lparr>error := Some (message_or ''Failed to load topic metadata'' e),
                                         isLoadingMetadata := False\<rparr>) s))"
| "resume (K_loadTopicConfig p) outcome s =
     (case awaited outcome config_of of
        Inr config \<Rightarrow>
          fulfil p (set_state (\<lambda>st. st\<lparr>topicConfig := config, isLoadingConfig := False\<rparr>) s)
      | Inl e \<Rightarrow>
          fulfil p (set_state (\<lambda>st. st\<lparr>error := Some (message_or ''Failed to load topic config'' e),
                                         isLoadingConfig := False\<rparr>) s))"
| "resume (K_createTopic_create connectionId p) outcome s =
     (case awaited_check outcome ''Failed to create topic'' of
        None \<Rightarrow> await_remote (GetTopics connectionId) (K_createTopic_list p) s
      | Some e \<Rightarrow> reject p e (set_state (topics_failed ''Failed to create topic'' e) s))"
| "resume (K_createTopic_list p) outcome s =
     (case awaited outcome sorted_topics_of of
        Inr ts \<Rightarrow>
          fulfil p (set_state (\<lambda>st. st\<lparr>topics := ts, isLoadingTopics := False,
                                         isLoading := False\<rparr>) s)
      | Inl e \<Rightarrow> reject p e (set_state (topics_failed ''Failed to create topic'' e) s))"
| "resume (K_deleteTopic topic p) outcome s =
     (case awaited_check outcome ''Failed to delete topic'' of
        None \<Rightarrow>
          fulfil p (set_state (\<lambda>st. st\<lparr>topics := filter (\<lambda>t. t \<noteq> JStr topic) (topics st),
                                         selectedTopic := (if selectedTopic st = Some topic then None
                                                           else selectedTopic st),
                                         isLoadingTopics := False, isLoading := False\<rparr>) s)
      | Some e \<Rightarrow> reject p e (set_state (topics_failed ''Failed to delete topic'' e) s))"
| "resume (K_loadMessages currentRequestId p) outcome s =
     (case outcome of
        Resolve result \<Rightarrow>
          (if currentRequestId \<noteq> messageRequestId s then fulfil p s
           else
             (case messages_of result of
                Inr msgs \<Rightarrow>
                  fulfil p (set_state (\<lambda>st. st\<lparr>messages := msgs,
                                                 isLoadingMessages := False\<rparr>) s)
              | Inl e \<Rightarrow>
                  (if currentRequestId \<noteq> messageRequestId s then fulfil p s
                   else fulfil p (set_state (\<lambda>st. st\<lparr>error := Some (message_or ''Failed to load messages'' e),
                                                        isLoadingMessages := False\<rparr>) s))))
      | Reject e \<Rightarrow>
          (if currentRequestId \<noteq> messageRequestId s then fulfil p s
           else fulfil p (set_state (\<lambda>st. st\<lparr>error := Some (message_or ''Failed to load messages'' e),
                                                isLoadingMessages := False\<rparr>) s)))"
| "resume (K_produceMessage p) outcome s =
     (case awaited_check outcome ''Failed to produce message'' of
        None \<Rightarrow> fulfil p (set_state (\<lambda>st. st\<lparr>isLoading := False\<rparr>) s)
      | Some e \<Rightarrow>
          reject p e (set_state (\<lambda>st. st\<lparr>error := Some (message_or ''Failed to produce message'' e),
                                          isLoading := False\<rparr>) s))"

text \<open>
  The remote call numbered \<open>c\<close> settles: the function suspended on it runs to its next
  suspension or to its end. Settling a call nobody awaits does nothing.
\<close>

definition settle :: "nat \<Rightarrow> settlement \<Rightarrow> runtime \<Rightarrow> runtime" where
  "settle c outcome s =
     (case awaiting s c of
        None \<Rightarrow> s
      | Some k \<Rightarrow> resume k outcome (s\<lparr>awaiting := (awaiting s)(c := None)\<rparr>))"

subsection \<open>Runs of the event loop\<close>

datatype event =
    Ev_loadTopics string
  | Ev_selectTopic "string option"
  | Ev_loadTopicMetadata string string
  | Ev_loadTopicConfig string string
  | Ev_createTopic string jsval
  | Ev_deleteTopic string string
  | Ev_loadMessages string string jsval
  | Ev_produceMessage string string jsval
  | Ev_setMessageToRepublish "MessageToRepublish option"
  | Ev_clearMessages
  | Ev_reset
  | Ev_settle nat settlement

fun step :: "runtime \<Rightarrow> event \<Rightarrow> runtime" where
  "step s (Ev_loadTopics c) = snd (loadTopics c s)"
| "step s (Ev_selectTopic t) = selectTopic t s"
| "step s (Ev_loadTopicMetadata c t) = snd (loadTopicMetadata c t s)"
| "step s (Ev_loadTopicConfig c t) = snd (loadTopicConfig c t s)"
| "step s (Ev_createTopic c cfg) = snd (createTopic c cfg s)"
| "step s (Ev_deleteTopic c t) = snd (deleteTopic c t s)"
| "step s (Ev_loadMessages c t opts) = snd (loadMessages c t opts s)"
| "step s (Ev_produceMessage c t m) = snd (produceMessage c t m s)"
| "step s (Ev_setMessageToRepublish m) = setMessageToRepublish m s"
| "step s Ev_clearMessages = clearMessages s"
| "step s Ev_reset = reset s"
| "step s (Ev_settle c outcome) = settle c outcome s"

definition run :: "runtime \<Rightarrow> event list \<Rightarrow> runtime" where
  "run s evs = foldl step s evs"

subsection \<open>What a resumed load commits\<close>

text \<open>
  The state update a message load makes when it is still current, and the one a topic
  load makes: the success branch or the \<^verbatim>\<open>catch\<close> branch of the resumed function.
\<close>

definition messages_commit :: "settlement \<Rightarrow> TopicState \<Rightarrow> TopicState" where
  "messages_commit outcome st =
     (case awaited outcome messages_of of
        Inr msgs \<Rightarrow> st\<lparr>messages := msgs, isLoadingMessages := False\<rparr>
      | Inl e \<Rightarrow> st\<lparr>error := Some (message_or ''Failed to load messages'' e),
                     isLoadingMessages := False\<rparr>)"

definition topics_commit :: "settlement \<Rightarrow> TopicState \<Rightarrow> TopicState" where
  "topics_commit outcome st =
     (case awaited outcome sorted_topics_of of
        Inr ts \<Rightarrow> st\<lparr>topics := ts, isLoadingTopics := False, isLoading := False\<rparr>
      | Inl e \<Rightarrow> topics_failed ''Failed to load topics'' e st)"

text \<open>
  The deduplication invariant: a suspended \<^verbatim>\<open>doLoad\<close> is registered in the in-flight map
  under its own key.
\<close>

definition dedup_inv :: "runtime \<Rightarrow> bool" where
  "dedup_inv s \<longleftrightarrow>
     (\<forall>c k p. awaiting s c = Some (K_loadTopics k p) \<longrightarrow>
        p = c \<and> inFlightRequests s k = Some c)"

section \<open>The connection store (electron/services/connection.store.ts)\<close>

text \<open>
  A saved profile: its id, the two timestamps (milliseconds, as \<^verbatim>\<open>Date.now()\<close> gives
  them) and every other field of the profile, which \<^verbatim>\<open>save\<close> copies unread.
\<close>

record 'a KafkaConnection =
  conn_id :: string
  profile :: 'a
  createdAt :: int
  updatedAt :: int

text \<open>The argument of \<^verbatim>\<open>save\<close>: the profile fields and an optional id.\<close>

record 'a connection_input =
  input_id :: "string option"
  input_profile :: 'a

type_synonym 'a connections = "string \<rightharpoonup> 'a KafkaConnection"

text \<open>
  \<^verbatim>\<open>connections[id] = savedConnection\<close> on the object read from the store, given by its
  own keys. For an ordinary property name, and for \<^verbatim>\<open>__proto__\<close> when the object has it
  as an own key, the key gets the value. Otherwise \<^verbatim>\<open>__proto__\<close> is the prototype
  accessor: the assignment replaces the prototype of this one object, creates no own key,
  and nothing of it is written back to the store.
\<close>

definition assign_property :: "'a connections \<Rightarrow> string \<Rightarrow> 'a KafkaConnection
    \<Rightarrow> 'a connections" where
  "assign_property connections k v =
     (if k = ''__proto__'' \<and> connections k = None then connections
      else connections(k \<mapsto> v))"

text \<open>
  \<^verbatim>\<open>save\<close> (lines 96-114) on the persisted \<^verbatim>\<open>connections\<close> object. \<open>uuid\<close> is what
  \<^verbatim>\<open>randomUUID()\<close> returns when it is called and \<open>now\<close> what \<^verbatim>\<open>Date.now()\<close> returns. An
  id that is absent or the empty string is falsy, and so is a creation time of 0. For a
  name that is not an own key, \<^verbatim>\<open>connections[id]\<close> is \<^verbatim>\<open>undefined\<close> or a member
  inherited from \<^verbatim>\<open>Object.prototype\<close>; neither has a \<^verbatim>\<open>createdAt\<close>. Reading and writing
  the store file are taken to succeed.
\<close>

definition save :: "string \<Rightarrow> int \<Rightarrow> 'a connection_input \<Rightarrow> 'a connections
    \<Rightarrow> 'a KafkaConnection \<times> 'a connections" where
  "save uuid now connection connections =
     (let id' = (case input_id connection of
                   None \<Rightarrow> uuid
                 | Some i \<Rightarrow> if i \<noteq> [] then i else uuid);
          existing = connections id';
          savedConnection =
            \<lparr>conn_id = id', profile = input_profile connection,
             createdAt = (case existing of
                            None \<Rightarrow> now
                          | Some e \<Rightarrow> if createdAt e \<noteq> 0 then createdAt e else now),
             updatedAt = now\<rparr>
      in (savedConnection, assign_property connections id' savedConnection))"

text \<open>\<^verbatim>\<open>delete\<close> (lines 116-120): removing a key that is not an own key changes nothing.\<close>

definition delete_conn :: "string \<Rightarrow> 'a connections \<Rightarrow> 'a connections" where
  "delete_conn id' connections = connections(id' := None)"

subsection \<open>Opening the store\<close>

text \<open>
  What the constructor (lines 53-84) can observe of the store file: whether
  \<^verbatim>\<open>JSON.parse\<close> accepts its text, and what the persistence library reads from it with
  the derived key (\<open>None\<close> when the library cannot read it and raises). The disk is the
  file, if it exists, and whether reading it and unlinking it succeed.
\<close>

record 'a store_file =
  json_valid :: bool
  stored :: "'a connections option"

record 'a disk =
  store_path :: "'a store_file option"
  readable :: bool
  removable :: bool

datatype open_error = StoreUnreadable

text \<open>
  \<^verbatim>\<open>new Store({name, defaults: {connections: {}}, encryptionKey})\<close>: without a file the
  store holds the defaults; with one, what the library reads from it.
\<close>

definition new_Store :: "'a disk \<Rightarrow> open_error + 'a connections" where
  "new_Store d =
     (case store_path d of
        None \<Rightarrow> Inr Map.empty
      | Some f \<Rightarrow> (case stored f of None \<Rightarrow> Inl StoreUnreadable | Some m \<Rightarrow> Inr m))"

text \<open>
  Lines 60-75: the pre-validation. The \<^verbatim>\<open>catch\<close> is entered when reading or parsing
  throws; the \<^verbatim>\<open>unlinkSync\<close> inside it has a \<^verbatim>\<open>catch\<close> of its own. The result is the
  disk as the store then finds it and the warnings printed.
\<close>

definition prevalidate :: "'a disk \<Rightarrow> 'a disk \<times> string list" where
  "prevalidate d =
     (case store_path d of
        None \<Rightarrow> (d, [])
      | Some f \<Rightarrow>
          if readable d \<and> json_valid f then (d, [])
          else (if removable d then d\<lparr>store_path := None\<rparr> else d,
                [''Connection store encrypted with different key, resetting...'']))"

definition ConnectionStore :: "'a disk \<Rightarrow> open_error + 'a connections" where
  "ConnectionStore d = new_Store (fst (prevalidate d))"

section \<open>Example inputs\<close>

text \<open>Concrete states and inputs at which the theorems below are instantiated.\<close>

definition busy_runtime :: runtime where
  "busy_runtime =
     run initial_runtime
       [Ev_loadTopics ''c'', Ev_loadTopicMetadata ''c'' ''t'', Ev_loadTopicConfig ''c'' ''t'',
        Ev_loadMessages ''c'' ''t'' JUndefined, Ev_createTopic ''c'' JNull,
        Ev_deleteTopic ''c'' ''t'', Ev_produceMessage ''c'' ''t'' JNull]"

definition one_topics_load :: runtime where
  "one_topics_load = snd (loadTopics ''c'' initial_runtime)"

definition one_messages_load :: runtime where
  "one_messages_load = snd (loadMessages ''c'' ''t'' JUndefined initial_runtime)"

definition stored_profile :: "unit KafkaConnection" where
  "stored_profile = \<lparr>conn_id = ''a'', profile = (), createdAt = 100, updatedAt = 100\<rparr>"



definition fresh_uuid :: string where
  "fresh_uuid = ''123e4567-e89b-42d3-a456-426614174000''"

definition proto_id_profile :: "unit connection_input" where
  "proto_id_profile = \<lparr>input_id = Some ''__proto__'', input_profile = ()\<rparr>"

definition corrupted_file :: "unit store_file" where
  "corrupted_file = \<lparr>json_valid = False, stored = None\<rparr>"

section \<open>Properties of the topic store\<close>

subsection \<open>Projections of the runtime operations\<close>

lemma fulfil_simps [simp]:
  "state (fulfil p s) = state s"
  "transitions (fulfil p s) = transitions s"
  "messageRequestId (fulfil p s) = messageRequestId s"
  "inFlightRequests (fulfil p s) = inFlightRequests s"
  "awaiting (fulfil p s) = awaiting s"
  "remote_calls (fulfil p s) = remote_calls s"
  "next_id (fulfil p s) = next_id s"
  "promises (fulfil p s) = (promises s)(p \<mapsto> Fulfilled)"
  by (simp_all add: fulfil_def)

lemma reject_simps [simp]:
  "state (reject p e s) = state s"
  "transitions (reject p e s) = transitions s"
  "messageRequestId (reject p e s) = messageRequestId s"
  "inFlightRequests (reject p e s) = inFlightRequests s"
  "awaiting (reject p e s) = awaiting s"
  "remote_calls (reject p e s) = remote_calls s"
  "next_id (reject p e s) = next_id s"
  "promises (reject p e s) = (promises s)(p \<mapsto> Rejected e)"
  by (simp_all add: reject_def)

lemma set_state_simps [simp]:
  "state (set_state f s) = f (state s)"
  "transitions (set_state f s) = transitions s @ [f (state s)]"
  "messageRequestId (set_state f s) = messageRequestId s"
  "inFlightRequests (set_state f s) = inFlightRequests s"
  "awaiting (set_state f s) = awaiting s"
  "remote_calls (set_state f s) = remote_calls s"
  "next_id (set_state f s) = next_id s"
  "promises (set_state f s) = promises s"
  by (simp_all add: set_state_def)

lemma start_async_simps [simp]:
  "fst (start_async rc k s) = next_id s"
  "state (snd (start_async rc k s)) = state s"
  "transitions (snd (start_async rc k s)) = transitions s"
  "messageRequestId (snd (start_async rc k s)) = messageRequestId s"
  "inFlightRequests (snd (start_async rc k s)) = inFlightRequests s"
  "awaiting (snd (start_async rc k s)) = (awaiting s)(next_id s \<mapsto> k (next_id s))"
  "remote_calls (snd (start_async rc k s)) = remote_calls s @ [rc]"
  "next_id (snd (start_async rc k s)) = next_id s + 1"
  "promises (snd (start_async rc k s)) = (promises s)(next_id s \<mapsto> Pending)"
  by (simp_all add: start_async_def)

lemma await_remote_simps [simp]:
  "state (await_remote rc k s) = state s"
  "transitions (await_remote rc k s) = transitions s"
  "messageRequestId (await_remote rc k s) = messageRequestId s"
  "inFlightRequests (await_remote rc k s) = inFlightRequests s"
  "awaiting (await_remote rc k s) = (awaiting s)(next_id s \<mapsto> k)"
  "remote_calls (await_remote rc k s) = remote_calls s @ [rc]"
  "next_id (await_remote rc k s) = next_id s + 1"
  "promises (await_remote rc k s) = promises s"
  by (simp_all add: await_remote_def)

subsection \<open>Selecting a topic\<close>

text \<open>
  Claim C5. \<^verbatim>\<open>selectTopic\<close> is one \<^verbatim>\<open>set\<close> call: it publishes exactly one new state, in
  which the selection is the new topic, the metadata is \<^verbatim>\<open>null\<close> and the configuration
  and the messages are the empty list, whatever they held before; every other field of
  the state, and everything else the module owns, is kept.
\<close>

theorem selectTopic_single_transition:
  "state (selectTopic topic s) =
     (state s)\<lparr>selectedTopic := topic, topicMetadata := JNull, topicConfig := JArr [],
               messages := JArr []\<rparr>
   \<and> transitions (selectTopic topic s) = transitions s @ [state (selectTopic topic s)]
   \<and> selectedTopic (state (selectTopic topic s)) = topic
   \<and> topicMetadata (state (selectTopic topic s)) = JNull
   \<and> topicConfig (state (selectTopic topic s)) = JArr []
   \<and> messages (state (selectTopic topic s)) = JArr []
   \<and> messageRequestId (selectTopic topic s) = messageRequestId s
   \<and> inFlightRequests (selectTopic topic s) = inFlightRequests s
   \<and> awaiting (selectTopic topic s) = awaiting s
   \<and> promises (selectTopic topic s) = promises s
   \<and> remote_calls (selectTopic topic s) = remote_calls s"
  by (simp add: selectTopic_def)

subsection \<open>Freshness fencing of message loads\<close>

lemma loadMessages_simps:
  "fst (loadMessages c t opts s) = next_id s"
  "state (snd (loadMessages c t opts s)) = (state s)\<lparr>isLoadingMessages := True, error := None\<rparr>"
  "transitions (snd (loadMessages c t opts s)) =
     transitions s @ [(state s)\<lparr>isLoadingMessages := True, error := None\<rparr>]"
  "messageRequestId (snd (loadMessages c t opts s)) = messageRequestId s + 1"
  "inFlightRequests (snd (loadMessages c t opts s)) = inFlightRequests s"
  "awaiting (snd (loadMessages c t opts s)) =
     (awaiting s)(next_id s \<mapsto> K_loadMessages (messageRequestId s + 1) (next_id s))"
  "remote_calls (snd (loadMessages c t opts s)) = remote_calls s @ [GetMessages c t opts]"
  "next_id (snd (loadMessages c t opts s)) = next_id s + 1"
  "promises (snd (loadMessages c t opts s)) = (promises s)(next_id s \<mapsto> Pending)"
  by (simp_all add: loadMessages_def Let_def)

lemma resume_loadMessages_stale:
  "tok \<noteq> messageRequestId s \<Longrightarrow> resume (K_loadMessages tok p) outcome s = fulfil p s"
  by (cases outcome) simp_all

lemma resume_loadMessages_current:
  "resume (K_loadMessages (messageRequestId s) p) outcome s =
     fulfil p (set_state (messages_commit outcome) s)"
  by (cases outcome) (simp_all add: messages_commit_def split: sum.splits)

lemma settle_loadMessages:
  assumes "awaiting s c = Some (K_loadMessages tok p)"
  shows "settle c outcome s =
     (if tok \<noteq> messageRequestId s then fulfil p (s\<lparr>awaiting := (awaiting s)(c := None)\<rparr>)
      else fulfil p (set_state (messages_commit outcome) (s\<lparr>awaiting := (awaiting s)(c := None)\<rparr>)))"
proof (cases "tok = messageRequestId s")
  case True
  then show ?thesis
    using assms resume_loadMessages_current [of "s\<lparr>awaiting := (awaiting s)(c := None)\<rparr>" p outcome]
    by (simp add: settle_def)
next
  case False
  then show ?thesis
    using assms resume_loadMessages_stale [of tok "s\<lparr>awaiting := (awaiting s)(c := None)\<rparr>" p outcome]
    by (simp add: settle_def)
qed

lemma settle_stale_loadMessages:
  assumes "awaiting r c = Some (K_loadMessages tok p)" and "tok \<noteq> messageRequestId r"
  shows "state (settle c outcome r) = state r"
    and "transitions (settle c outcome r) = transitions r"
    and "messageRequestId (settle c outcome r) = messageRequestId r"
  using settle_loadMessages [OF assms(1), of outcome] assms(2) by simp_all

lemma messages_of_commit:
  "messages (messages_commit rb st) =
     (case awaited rb messages_of of Inr msgs \<Rightarrow> msgs | Inl e \<Rightarrow> messages st)"
  by (simp add: messages_commit_def split: sum.splits)

lemma two_loads:
  fixes s ca ta oa cb tb ob
  defines "s1 \<equiv> snd (loadMessages ca ta oa s)"
  defines "s2 \<equiv> snd (loadMessages cb tb ob s1)"
  defines "a \<equiv> fst (loadMessages ca ta oa s)"
  defines "b \<equiv> fst (loadMessages cb tb ob s1)"
  shows "awaiting s2 a = Some (K_loadMessages (messageRequestId s + 1) a)"
    and "awaiting s2 b = Some (K_loadMessages (messageRequestId s + 2) b)"
    and "messageRequestId s2 = messageRequestId s + 2"
    and "a \<noteq> b"
    and "state s2 = (state s)\<lparr>isLoadingMessages := True, error := None\<rparr>"
  by (simp_all add: s1_def s2_def a_def b_def loadMessages_simps)

lemma fence:
  fixes s ca ta oa cb tb ob ra rb
  defines "s1 \<equiv> snd (loadMessages ca ta oa s)"
  defines "s2 \<equiv> snd (loadMessages cb tb ob s1)"
  defines "a \<equiv> fst (loadMessages ca ta oa s)"
  defines "b \<equiv> fst (loadMessages cb tb ob s1)"
  shows "state (settle b rb s2) = messages_commit rb (state s2)"
    and "state (settle a ra s2) = state s2"
    and "transitions (settle a ra s2) = transitions s2"
    and "state (settle b rb (settle a ra s2)) = messages_commit rb (state s2)"
    and "state (settle a ra (settle b rb s2)) = messages_commit rb (state s2)"
    and "transitions (settle a ra (settle b rb s2)) = transitions (settle b rb s2)"
proof -
  have A: "awaiting s2 a = Some (K_loadMessages (messageRequestId s + 1) a)"
    and B: "awaiting s2 b = Some (K_loadMessages (messageRequestId s + 2) b)"
    and M: "messageRequestId s2 = messageRequestId s + 2"
    and ab: "a \<noteq> b"
    unfolding s1_def s2_def a_def b_def by (rule two_loads)+
  have sa: "settle a ra s2 = fulfil a (s2\<lparr>awaiting := (awaiting s2)(a := None)\<rparr>)"
    using settle_loadMessages [OF A, of ra] M by simp
  have sb: "settle b rb s2 =
      fulfil b (set_state (messages_commit rb) (s2\<lparr>awaiting := (awaiting s2)(b := None)\<rparr>))"
    using settle_loadMessages [OF B, of rb] M by simp
  have B': "awaiting (settle a ra s2) b = Some (K_loadMessages (messageRequestId s + 2) b)"
    unfolding sa using B ab by simp
  have A': "awaiting (settle b rb s2) a = Some (K_loadMessages (messageRequestId s + 1) a)"
    unfolding sb using A ab by simp
  show "state (settle b rb s2) = messages_commit rb (state s2)"
    unfolding sb by simp
  show "state (settle a ra s2) = state s2" "transitions (settle a ra s2) = transitions s2"
    unfolding sa by simp_all
  show "state (settle b rb (settle a ra s2)) = messages_commit rb (state s2)"
    using settle_loadMessages [OF B', of rb] M unfolding sa by simp
  show "state (settle a ra (settle b rb s2)) = messages_commit rb (state s2)"
    using settle_loadMessages [OF A', of ra] M unfolding sb by simp
  show "transitions (settle a ra (settle b rb s2)) = transitions (settle b rb s2)"
    using settle_loadMessages [OF A', of ra] M unfolding sb by simp
qed

text \<open>
  Claim C1. Message load A is issued, then message load B before A settles. Whatever the
  two remote calls answer and in whichever order they settle, the store ends in the state
  B alone produces from the state at B's issue: its messages are B's page, or the earlier
  ones when B failed, and A's settlement changes nothing and publishes nothing. In
  general, a message load whose token differs from the request counter when it settles
  leaves the state, the published transitions and the counter as they were.
\<close>

theorem fenced_load_last_issued_wins:
  "(let s1 = snd (loadMessages ca ta oa s); a = fst (loadMessages ca ta oa s);
        s2 = snd (loadMessages cb tb ob s1); b = fst (loadMessages cb tb ob s1)
    in state (settle b rb (settle a ra s2)) = state (settle b rb s2)
     \<and> state (settle a ra (settle b rb s2)) = state (settle b rb s2)
     \<and> messages (state (settle b rb s2)) =
         (case awaited rb messages_of of Inr msgs \<Rightarrow> msgs | Inl e \<Rightarrow> messages (state s))
     \<and> state (settle a ra s2) = state s2
     \<and> transitions (settle a ra s2) = transitions s2
     \<and> transitions (settle a ra (settle b rb s2)) = transitions (settle b rb s2))
   \<and> (\<forall>r c tok p outcome.
         awaiting r c = Some (K_loadMessages tok p) \<and> tok \<noteq> messageRequestId r \<longrightarrow>
           state (settle c outcome r) = state r
         \<and> transitions (settle c outcome r) = transitions r
         \<and> messageRequestId (settle c outcome r) = messageRequestId r)"
proof -
  have m: "messages (messages_commit rb (state (snd (loadMessages cb tb ob (snd (loadMessages ca ta oa s)))))) =
      (case awaited rb messages_of of Inr msgs \<Rightarrow> msgs | Inl e \<Rightarrow> messages (state s))"
    by (simp add: messages_of_commit loadMessages_simps split: sum.splits)
  have general: "\<forall>r c tok p outcome.
         awaiting r c = Some (K_loadMessages tok p) \<and> tok \<noteq> messageRequestId r \<longrightarrow>
           state (settle c outcome r) = state r
         \<and> transitions (settle c outcome r) = transitions r
         \<and> messageRequestId (settle c outcome r) = messageRequestId r"
    using settle_stale_loadMessages by blast
  show ?thesis
    unfolding Let_def
    apply (rule conjI)
     apply (simp only: fence m simp_thms)
    apply (rule general)
    done
qed

text \<open>An instance: A is rejected after B has committed its page.\<close>

theorem fenced_load_last_issued_wins_witness:
  "state (settle 0 (Reject (ErrorObj ''late''))
      (settle 1 (Resolve (JArr [JStr ''new'']))
         (snd (loadMessages ''c'' ''t2'' JUndefined
            (snd (loadMessages ''c'' ''t1'' JUndefined initial_runtime))))))
   = initial_state\<lparr>messages := JArr [JStr ''new'']\<rparr>"
proof -
  let ?s2 = "snd (loadMessages ''c'' ''t2'' JUndefined
            (snd (loadMessages ''c'' ''t1'' JUndefined initial_runtime)))"
  let ?r = "settle 1 (Resolve (JArr [JStr ''new''])) ?s2"
  have h: "awaiting ?r 0 = Some (K_loadMessages 1 0) \<and> 1 \<noteq> messageRequestId ?r"
    by (simp add: loadMessages_def start_async_def set_state_def settle_def fulfil_def
        initial_runtime_def Let_def messages_of_def is_ipc_response_def)
  have "state ?r = initial_state\<lparr>messages := JArr [JStr ''new'']\<rparr>"
    by (simp add: loadMessages_def start_async_def set_state_def settle_def fulfil_def
        initial_runtime_def initial_state_def Let_def messages_of_def is_ipc_response_def)
  with h show ?thesis
    using fenced_load_last_issued_wins by metis
qed

text \<open>
  Claim C2. With A issued before B: once B has committed a page, the error field is unset
  and stays unset when A then settles, with a rejection or with anything else, and the
  messages stay B's. In general, a superseded message load that settles writes neither
  the error field nor the messages and publishes no transition.
\<close>

theorem stale_failure_not_surfaced:
  "(let s1 = snd (loadMessages ca ta oa s); a = fst (loadMessages ca ta oa s);
        s2 = snd (loadMessages cb tb ob s1); b = fst (loadMessages cb tb ob s1)
    in awaited rb messages_of = Inr msgs \<longrightarrow>
         error (state (settle b rb s2)) = None
       \<and> messages (state (settle b rb s2)) = msgs
       \<and> error (state (settle a ra (settle b rb s2))) = None
       \<and> messages (state (settle a ra (settle b rb s2))) = msgs)
   \<and> (\<forall>r c tok p outcome.
         awaiting r c = Some (K_loadMessages tok p) \<and> tok \<noteq> messageRequestId r \<longrightarrow>
           error (state (settle c outcome r)) = error (state r)
         \<and> messages (state (settle c outcome r)) = messages (state r)
         \<and> transitions (settle c outcome r) = transitions r)"
proof -
  have committed: "awaited rb messages_of = Inr msgs \<Longrightarrow>
      error (messages_commit rb (state (snd (loadMessages cb tb ob (snd (loadMessages ca ta oa s)))))) = None
    \<and> messages (messages_commit rb (state (snd (loadMessages cb tb ob (snd (loadMessages ca ta oa s)))))) = msgs"
    by (simp add: messages_commit_def loadMessages_simps)
  have general: "\<forall>r c tok p outcome.
         awaiting r c = Some (K_loadMessages tok p) \<and> tok \<noteq> messageRequestId r \<longrightarrow>
           error (state (settle c outcome r)) = error (state r)
         \<and> messages (state (settle c outcome r)) = messages (state r)
         \<and> transitions (settle c outcome r) = transitions r"
    using settle_stale_loadMessages by simp
  show ?thesis
    unfolding Let_def
    apply (rule conjI)
     apply (simp only: fence)
    using committed apply blast
    apply (rule general)
    done
qed

text \<open>An instance: B resolves with a page, then A is rejected.\<close>

theorem stale_failure_not_surfaced_witness:
  "awaited (Resolve (JArr [JStr ''new''])) messages_of = Inr (JArr [JStr ''new''])
   \<and> error (state (settle 0 (Reject (ErrorObj ''late''))
        (settle 1 (Resolve (JArr [JStr ''new'']))
           (snd (loadMessages ''c'' ''t2'' JUndefined
              (snd (loadMessages ''c'' ''t1'' JUndefined initial_runtime))))))) = None"
proof -
  have h: "awaited (Resolve (JArr [JStr ''new''])) messages_of = Inr (JArr [JStr ''new''])"
    by (simp add: messages_of_def is_ipc_response_def)
  have a: "fst (loadMessages ''c'' ''t1'' JUndefined initial_runtime) = 0"
    and b: "fst (loadMessages ''c'' ''t2'' JUndefined
              (snd (loadMessages ''c'' ''t1'' JUndefined initial_runtime))) = 1"
    by (simp_all add: loadMessages_simps initial_runtime_def)
  show ?thesis
    using h stale_failure_not_surfaced [where ca = "''c''" and ta = "''t1''" and oa = JUndefined
        and s = initial_runtime and cb = "''c''" and tb = "''t2''" and ob = JUndefined
        and rb = "Resolve (JArr [JStr ''new''])" and msgs = "JArr [JStr ''new'']"
        and ra = "Reject (ErrorObj ''late'')"]
    unfolding Let_def a b by blast
qed

subsection \<open>Deduplication of topic loads\<close>

lemma loadTopics_hit:
  "inFlightRequests s (''loadTopics:'' @ c) = Some q \<Longrightarrow> loadTopics c s = (q, s)"
  by (simp add: loadTopics_def)

lemma loadTopics_miss:
  assumes "inFlightRequests s (''loadTopics:'' @ c) = None"
  shows "fst (loadTopics c s) = next_id s"
    and "state (snd (loadTopics c s)) =
           (state s)\<lparr>isLoadingTopics := True, isLoading := True, error := None\<rparr>"
    and "messageRequestId (snd (loadTopics c s)) = messageRequestId s"
    and "inFlightRequests (snd (loadTopics c s)) =
           (inFlightRequests s)(''loadTopics:'' @ c \<mapsto> next_id s)"
    and "awaiting (snd (loadTopics c s)) =
           (awaiting s)(next_id s \<mapsto> K_loadTopics (''loadTopics:'' @ c) (next_id s))"
    and "remote_calls (snd (loadTopics c s)) = remote_calls s @ [GetTopics c]"
    and "next_id (snd (loadTopics c s)) = next_id s + 1"
    and "promises (snd (loadTopics c s)) = (promises s)(next_id s \<mapsto> Pending)"
  using assms by (simp_all add: loadTopics_def Let_def split_beta)

lemma resume_loadTopics:
  "resume (K_loadTopics k p) outcome s =
     fulfil p ((set_state (topics_commit outcome) s)
                 \<lparr>inFlightRequests := (inFlightRequests s)(k := None)\<rparr>)"
  by (simp add: topics_commit_def Let_def split: sum.splits)

lemma settle_loadTopics:
  assumes "awaiting s c = Some (K_loadTopics k p)"
  shows "settle c outcome s =
     fulfil p ((set_state (topics_commit outcome) (s\<lparr>awaiting := (awaiting s)(c := None)\<rparr>))
                 \<lparr>inFlightRequests := (inFlightRequests s)(k := None)\<rparr>)"
  using assms by (simp add: settle_def resume_loadTopics del: resume.simps)

lemma settle_loadTopics_simps:
  assumes "awaiting s c = Some (K_loadTopics k p)"
  shows "inFlightRequests (settle c outcome s) = (inFlightRequests s)(k := None)"
    and "awaiting (settle c outcome s) = (awaiting s)(c := None)"
    and "remote_calls (settle c outcome s) = remote_calls s"
    and "next_id (settle c outcome s) = next_id s"
    and "promises (settle c outcome s) = (promises s)(p \<mapsto> Fulfilled)"
    and "state (settle c outcome s) = topics_commit outcome (state s)"
    and "messageRequestId (settle c outcome s) = messageRequestId s"
  by (simp_all add: settle_loadTopics [OF assms])

lemma dedup_inv_set_state [simp]: "dedup_inv (set_state f s) = dedup_inv s"
  by (simp add: dedup_inv_def)

lemma dedup_inv_fulfil [simp]: "dedup_inv (fulfil p s) = dedup_inv s"
  by (simp add: dedup_inv_def)

lemma dedup_inv_reject [simp]: "dedup_inv (reject p e s) = dedup_inv s"
  by (simp add: dedup_inv_def)

lemma dedup_inv_counter [simp]: "dedup_inv (s\<lparr>messageRequestId := n\<rparr>) = dedup_inv s"
  by (simp add: dedup_inv_def)

lemma dedup_inv_start_async:
  assumes "dedup_inv s" and "\<And>n k p. kf n \<noteq> K_loadTopics k p"
  shows "dedup_inv (snd (start_async rc kf s))"
  using assms by (auto simp: dedup_inv_def)

lemma dedup_inv_await_remote:
  assumes "dedup_inv s" and "\<And>k p. kc \<noteq> K_loadTopics k p"
  shows "dedup_inv (await_remote rc kc s)"
  using assms by (auto simp: dedup_inv_def)

lemma dedup_inv_forget:
  assumes "dedup_inv s" and "\<And>k p. awaiting s c \<noteq> Some (K_loadTopics k p)"
  shows "dedup_inv (s\<lparr>awaiting := (awaiting s)(c := None)\<rparr>)"
  using assms by (auto simp: dedup_inv_def)

lemma dedup_inv_loadTopics:
  assumes "dedup_inv s"
  shows "dedup_inv (snd (loadTopics c s))"
proof (cases "inFlightRequests s (''loadTopics:'' @ c)")
  case None
  show ?thesis
    unfolding dedup_inv_def
  proof (intro allI impI)
    fix c' k p
    assume a: "awaiting (snd (loadTopics c s)) c' = Some (K_loadTopics k p)"
    show "p = c' \<and> inFlightRequests (snd (loadTopics c s)) k = Some c'"
    proof (cases "c' = next_id s")
      case True
      with a None show ?thesis by (simp add: loadTopics_miss)
    next
      case False
      with a None have old: "awaiting s c' = Some (K_loadTopics k p)"
        by (simp add: loadTopics_miss)
      with assms have pc: "p = c'" and inf: "inFlightRequests s k = Some c'"
        by (simp_all add: dedup_inv_def)
      from inf None have "k \<noteq> ''loadTopics:'' @ c" by auto
      with pc inf None show ?thesis by (simp add: loadTopics_miss)
    qed
  qed
next
  case (Some q)
  with assms show ?thesis by (simp add: loadTopics_hit)
qed

lemma dedup_inv_settle:
  assumes "dedup_inv s"
  shows "dedup_inv (settle c outcome s)"
proof (cases "awaiting s c")
  case None
  with assms show ?thesis by (simp add: settle_def)
next
  case (Some kc)
  let ?s = "s\<lparr>awaiting := (awaiting s)(c := None)\<rparr>"
  have st: "settle c outcome s = resume kc outcome ?s"
    using Some by (simp add: settle_def)
  show ?thesis
  proof (cases kc)
    case (K_loadTopics k p)
    have A: "awaiting s c = Some (K_loadTopics k p)" using Some K_loadTopics by simp
    show ?thesis
      unfolding dedup_inv_def
    proof (intro allI impI)
      fix c' k' p'
      assume a: "awaiting (settle c outcome s) c' = Some (K_loadTopics k' p')"
      then have ne: "c' \<noteq> c" and old: "awaiting s c' = Some (K_loadTopics k' p')"
        by (auto simp: settle_loadTopics_simps [OF A] split: if_splits)
      from assms old have pc: "p' = c'" and inf: "inFlightRequests s k' = Some c'"
        by (simp_all add: dedup_inv_def)
      from assms A have "inFlightRequests s k = Some c" by (simp add: dedup_inv_def)
      with inf ne have "k' \<noteq> k" by auto
      with pc inf show "p' = c' \<and> inFlightRequests (settle c outcome s) k' = Some c'"
        by (simp add: settle_loadTopics_simps [OF A])
    qed
  next
    case (K_loadTopicMetadata p)
    have "dedup_inv ?s" using assms Some K_loadTopicMetadata by (intro dedup_inv_forget) simp_all
    then show ?thesis unfolding st K_loadTopicMetadata by (simp split: sum.splits)
  next
    case (K_loadTopicConfig p)
    have "dedup_inv ?s" using assms Some K_loadTopicConfig by (intro dedup_inv_forget) simp_all
    then show ?thesis unfolding st K_loadTopicConfig by (simp split: sum.splits)
  next
    case (K_createTopic_create conn p)
    have "dedup_inv ?s" using assms Some K_createTopic_create by (intro dedup_inv_forget) simp_all
    then show ?thesis unfolding st K_createTopic_create
      by (simp add: dedup_inv_await_remote split: option.splits)
  next
    case (K_createTopic_list p)
    have "dedup_inv ?s" using assms Some K_createTopic_list by (intro dedup_inv_forget) simp_all
    then show ?thesis unfolding st K_createTopic_list by (simp split: sum.splits)
  next
    case (K_deleteTopic t p)
    have "dedup_inv ?s" using assms Some K_deleteTopic by (intro dedup_inv_forget) simp_all
    then show ?thesis unfolding st K_deleteTopic by (simp split: option.splits)
  next
    case (K_loadMessages tok p)
    have "dedup_inv ?s" using assms Some K_loadMessages by (intro dedup_inv_forget) simp_all
    then show ?thesis unfolding st K_loadMessages
      by (simp split: settlement.splits sum.splits)
  next
    case (K_produceMessage p)
    have "dedup_inv ?s" using assms Some K_produceMessage by (intro dedup_inv_forget) simp_all
    then show ?thesis unfolding st K_produceMessage by (simp split: option.splits)
  qed
qed

lemma dedup_inv_step:
  assumes "dedup_inv s"
  shows "dedup_inv (step s e)"
proof (cases e)
  case (Ev_loadTopics c)
  with assms show ?thesis by (simp add: dedup_inv_loadTopics)
next
  case (Ev_settle c outcome)
  with assms show ?thesis by (simp add: dedup_inv_settle)
next
  case (Ev_loadMessages c t opts)
  with assms show ?thesis
    by (simp add: loadMessages_def Let_def dedup_inv_start_async)
qed (use assms in \<open>simp_all add: selectTopic_def loadTopicMetadata_def loadTopicConfig_def
      createTopic_def deleteTopic_def produceMessage_def setMessageToRepublish_def
      clearMessages_def reset_def dedup_inv_start_async\<close>)

lemma dedup_inv_initial: "dedup_inv initial_runtime"
  by (simp add: dedup_inv_def initial_runtime_def)

lemma run_snoc: "run s (evs @ [e]) = step (run s evs) e"
  by (simp add: run_def)

lemma dedup_inv_run: "dedup_inv s \<Longrightarrow> dedup_inv (run s evs)"
  by (induction evs rule: rev_induct) (simp_all add: run_def dedup_inv_step)

lemma run_repeated_loadTopics:
  "inFlightRequests s (''loadTopics:'' @ c) = Some q \<Longrightarrow>
   run s (replicate n (Ev_loadTopics c)) = s"
  by (induction n) (simp_all add: run_def loadTopics_hit)

text \<open>
  Claim C3. For every connection id: a first \<^verbatim>\<open>loadTopics\<close> makes one \<^verbatim>\<open>getTopics\<close> call
  and registers its pending promise; while that call is in flight, every further
  \<^verbatim>\<open>loadTopics\<close> for the same connection id returns that same pending promise and changes
  nothing, so no second call is made however many callers there are, and all of them see
  the one outcome of that promise. In every state the event loop can reach, at most one
  \<^verbatim>\<open>getTopics\<close> call made by \<^verbatim>\<open>loadTopics\<close> is in flight per key.
\<close>

theorem loadTopics_deduplicated:
  "(inFlightRequests s (''loadTopics:'' @ c) = None \<longrightarrow>
      (let p = fst (loadTopics c s); s1 = snd (loadTopics c s)
       in remote_calls s1 = remote_calls s @ [GetTopics c]
        \<and> promises s1 p = Some Pending
        \<and> loadTopics c s1 = (p, s1)
        \<and> run s1 (replicate n (Ev_loadTopics c)) = s1))
   \<and> (inFlightRequests s (''loadTopics:'' @ c) = Some q \<longrightarrow> loadTopics c s = (q, s))
   \<and> (awaiting s c0 = Some (K_loadTopics k q) \<longrightarrow>
        promises (settle c0 outcome s) q = Some Fulfilled)
   \<and> (\<forall>evs k c1 p1 c2 p2.
         awaiting (run initial_runtime evs) c1 = Some (K_loadTopics k p1)
       \<and> awaiting (run initial_runtime evs) c2 = Some (K_loadTopics k p2)
       \<longrightarrow> c1 = c2 \<and> p1 = p2)
   \<and> (\<forall>evs c1 p1.
         awaiting (run initial_runtime evs) c1 = Some (K_loadTopics (''loadTopics:'' @ c) p1)
       \<longrightarrow> loadTopics c (run initial_runtime evs) = (p1, run initial_runtime evs))"
proof -
  have first: "inFlightRequests s (''loadTopics:'' @ c) = None \<longrightarrow>
      (let p = fst (loadTopics c s); s1 = snd (loadTopics c s)
       in remote_calls s1 = remote_calls s @ [GetTopics c]
        \<and> promises s1 p = Some Pending
        \<and> loadTopics c s1 = (p, s1)
        \<and> run s1 (replicate n (Ev_loadTopics c)) = s1)"
  proof
    assume none: "inFlightRequests s (''loadTopics:'' @ c) = None"
    have reg: "inFlightRequests (snd (loadTopics c s)) (''loadTopics:'' @ c)
        = Some (fst (loadTopics c s))"
      by (simp add: loadTopics_miss [OF none])
    show "let p = fst (loadTopics c s); s1 = snd (loadTopics c s)
       in remote_calls s1 = remote_calls s @ [GetTopics c]
        \<and> promises s1 p = Some Pending
        \<and> loadTopics c s1 = (p, s1)
        \<and> run s1 (replicate n (Ev_loadTopics c)) = s1"
      unfolding Let_def
      using loadTopics_hit [OF reg] run_repeated_loadTopics [OF reg]
      by (simp add: loadTopics_miss [OF none])
  qed
  have hit: "inFlightRequests s (''loadTopics:'' @ c) = Some q \<longrightarrow> loadTopics c s = (q, s)"
    by (simp add: loadTopics_hit)
  have settled: "awaiting s c0 = Some (K_loadTopics k q) \<longrightarrow>
        promises (settle c0 outcome s) q = Some Fulfilled"
    by (simp add: settle_loadTopics_simps)
  have unique: "\<forall>evs k c1 p1 c2 p2.
         awaiting (run initial_runtime evs) c1 = Some (K_loadTopics k p1)
       \<and> awaiting (run initial_runtime evs) c2 = Some (K_loadTopics k p2)
       \<longrightarrow> c1 = c2 \<and> p1 = p2"
  proof (intro allI impI)
    fix evs k c1 p1 c2 p2
    assume a: "awaiting (run initial_runtime evs) c1 = Some (K_loadTopics k p1)
       \<and> awaiting (run initial_runtime evs) c2 = Some (K_loadTopics k p2)"
    have inv: "dedup_inv (run initial_runtime evs)"
      by (rule dedup_inv_run [OF dedup_inv_initial])
    from inv a have "p1 = c1" "inFlightRequests (run initial_runtime evs) k = Some c1"
      "p2 = c2" "inFlightRequests (run initial_runtime evs) k = Some c2"
      unfolding dedup_inv_def by blast+
    then show "c1 = c2 \<and> p1 = p2" by simp
  qed
  have shared: "\<forall>evs c1 p1.
         awaiting (run initial_runtime evs) c1 = Some (K_loadTopics (''loadTopics:'' @ c) p1)
       \<longrightarrow> loadTopics c (run initial_runtime evs) = (p1, run initial_runtime evs)"
  proof (intro allI impI)
    fix evs c1 p1
    assume a: "awaiting (run initial_runtime evs) c1 = Some (K_loadTopics (''loadTopics:'' @ c) p1)"
    have inv: "dedup_inv (run initial_runtime evs)"
      by (rule dedup_inv_run [OF dedup_inv_initial])
    from inv a have "inFlightRequests (run initial_runtime evs) (''loadTopics:'' @ c) = Some p1"
      unfolding dedup_inv_def by blast
    then show "loadTopics c (run initial_runtime evs) = (p1, run initial_runtime evs)"
      by (rule loadTopics_hit)
  qed
  from first hit settled unique shared show ?thesis by blast
qed

text \<open>An instance: three invocations in a row from the initial state make one call.\<close>

theorem loadTopics_deduplicated_witness:
  "inFlightRequests initial_runtime (''loadTopics:'' @ ''c1'') = None
   \<and> remote_calls (run initial_runtime [Ev_loadTopics ''c1'', Ev_loadTopics ''c1'', Ev_loadTopics ''c1''])
       = [GetTopics ''c1'']
   \<and> fst (loadTopics ''c1'' (snd (loadTopics ''c1'' initial_runtime)))
       = fst (loadTopics ''c1'' initial_runtime)"
proof -
  have h: "inFlightRequests initial_runtime (''loadTopics:'' @ ''c1'') = None"
    by (simp add: initial_runtime_def)
  have r: "remote_calls initial_runtime = []"
    by (simp add: initial_runtime_def)
  have "run initial_runtime [Ev_loadTopics ''c1'', Ev_loadTopics ''c1'', Ev_loadTopics ''c1'']
      = run (snd (loadTopics ''c1'' initial_runtime)) (replicate 2 (Ev_loadTopics ''c1''))"
    by (simp add: run_def numeral_2_eq_2)
  with h r show ?thesis
    using loadTopics_deduplicated [where s = initial_runtime and c = "''c1''" and n = 2]
    unfolding Let_def by simp
qed

text \<open>
  Claim C4. When the in-flight \<^verbatim>\<open>getTopics\<close> call of a \<^verbatim>\<open>loadTopics\<close> settles, with a
  result or with a rejection, its key leaves the in-flight map; the next \<^verbatim>\<open>loadTopics\<close>
  for the same connection id makes a fresh \<^verbatim>\<open>getTopics\<close> call and returns a new pending
  promise, not the settled one.
\<close>

theorem loadTopics_key_reusable:
  "(awaiting s c0 = Some (K_loadTopics (''loadTopics:'' @ c) p) \<longrightarrow>
      (let s' = settle c0 outcome s; p' = fst (loadTopics c s'); s'' = snd (loadTopics c s')
       in inFlightRequests s' (''loadTopics:'' @ c) = None
        \<and> remote_calls s' = remote_calls s
        \<and> remote_calls s'' = remote_calls s' @ [GetTopics c]
        \<and> awaiting s'' p' = Some (K_loadTopics (''loadTopics:'' @ c) p')
        \<and> inFlightRequests s'' (''loadTopics:'' @ c) = Some p'
        \<and> promises s'' p' = Some Pending))
   \<and> (inFlightRequests s (''loadTopics:'' @ c) = None \<longrightarrow>
      (let p1 = fst (loadTopics c s); s1 = snd (loadTopics c s);
           s2 = settle p1 outcome s1;
           p2 = fst (loadTopics c s2); s3 = snd (loadTopics c s2)
       in remote_calls s3 = remote_calls s @ [GetTopics c, GetTopics c]
        \<and> p2 \<noteq> p1
        \<and> promises s3 p1 = Some Fulfilled
        \<and> promises s3 p2 = Some Pending))"
proof -
  have general: "awaiting s c0 = Some (K_loadTopics (''loadTopics:'' @ c) p) \<longrightarrow>
      (let s' = settle c0 outcome s; p' = fst (loadTopics c s'); s'' = snd (loadTopics c s')
       in inFlightRequests s' (''loadTopics:'' @ c) = None
        \<and> remote_calls s' = remote_calls s
        \<and> remote_calls s'' = remote_calls s' @ [GetTopics c]
        \<and> awaiting s'' p' = Some (K_loadTopics (''loadTopics:'' @ c) p')
        \<and> inFlightRequests s'' (''loadTopics:'' @ c) = Some p'
        \<and> promises s'' p' = Some Pending)"
  proof
    assume a: "awaiting s c0 = Some (K_loadTopics (''loadTopics:'' @ c) p)"
    have none: "inFlightRequests (settle c0 outcome s) (''loadTopics:'' @ c) = None"
      by (simp add: settle_loadTopics_simps [OF a])
    show "let s' = settle c0 outcome s; p' = fst (loadTopics c s'); s'' = snd (loadTopics c s')
       in inFlightRequests s' (''loadTopics:'' @ c) = None
        \<and> remote_calls s' = remote_calls s
        \<and> remote_calls s'' = remote_calls s' @ [GetTopics c]
        \<and> awaiting s'' p' = Some (K_loadTopics (''loadTopics:'' @ c) p')
        \<and> inFlightRequests s'' (''loadTopics:'' @ c) = Some p'
        \<and> promises s'' p' = Some Pending"
      unfolding Let_def
      using none by (simp add: loadTopics_miss [OF none] settle_loadTopics_simps(3) [OF a])
  qed
  have again: "inFlightRequests s (''loadTopics:'' @ c) = None \<longrightarrow>
      (let p1 = fst (loadTopics c s); s1 = snd (loadTopics c s);
           s2 = settle p1 outcome s1;
           p2 = fst (loadTopics c s2); s3 = snd (loadTopics c s2)
       in remote_calls s3 = remote_calls s @ [GetTopics c, GetTopics c]
        \<and> p2 \<noteq> p1
        \<and> promises s3 p1 = Some Fulfilled
        \<and> promises s3 p2 = Some Pending)"
  proof
    assume n0: "inFlightRequests s (''loadTopics:'' @ c) = None"
    let ?p1 = "fst (loadTopics c s)" and ?s1 = "snd (loadTopics c s)"
    have p1: "?p1 = next_id s" by (simp add: loadTopics_miss [OF n0])
    have a: "awaiting ?s1 ?p1 = Some (K_loadTopics (''loadTopics:'' @ c) ?p1)"
      by (simp add: loadTopics_miss [OF n0])
    let ?s2 = "settle ?p1 outcome ?s1"
    have none: "inFlightRequests ?s2 (''loadTopics:'' @ c) = None"
      unfolding settle_loadTopics_simps [OF a] by simp
    have n2: "next_id ?s2 = next_id s + 1"
      unfolding settle_loadTopics_simps [OF a] by (simp add: loadTopics_miss [OF n0])
    have r2: "remote_calls ?s2 = remote_calls s @ [GetTopics c]"
      unfolding settle_loadTopics_simps [OF a] by (simp add: loadTopics_miss [OF n0])
    have pr2: "promises ?s2 ?p1 = Some Fulfilled"
      unfolding settle_loadTopics_simps [OF a] by simp
    have f1: "fst (loadTopics c ?s2) = next_id ?s2"
      and f2: "remote_calls (snd (loadTopics c ?s2)) = remote_calls ?s2 @ [GetTopics c]"
      and f3: "promises (snd (loadTopics c ?s2)) = (promises ?s2)(next_id ?s2 \<mapsto> Pending)"
      by (rule loadTopics_miss [OF none])+
    have ne: "next_id ?s2 \<noteq> ?p1" using n2 p1 by simp
    show "let p1 = fst (loadTopics c s); s1 = snd (loadTopics c s);
           s2 = settle p1 outcome s1;
           p2 = fst (loadTopics c s2); s3 = snd (loadTopics c s2)
       in remote_calls s3 = remote_calls s @ [GetTopics c, GetTopics c]
        \<and> p2 \<noteq> p1
        \<and> promises s3 p1 = Some Fulfilled
        \<and> promises s3 p2 = Some Pending"
      unfolding Let_def f1 f2 f3 r2
      using ne pr2 by (simp del: fun_upd_apply add: fun_upd_other fun_upd_same)
  qed
  from general again show ?thesis by blast
qed

text \<open>An instance: the first load is rejected, the second makes its own call.\<close>

theorem loadTopics_key_reusable_witness:
  "inFlightRequests initial_runtime (''loadTopics:'' @ ''c1'') = None
   \<and> remote_calls (snd (loadTopics ''c1''
        (settle (fst (loadTopics ''c1'' initial_runtime)) (Reject (ErrorObj ''down''))
           (snd (loadTopics ''c1'' initial_runtime)))))
       = [GetTopics ''c1'', GetTopics ''c1'']"
proof -
  have h: "inFlightRequests initial_runtime (''loadTopics:'' @ ''c1'') = None"
    by (simp add: initial_runtime_def)
  have r: "remote_calls initial_runtime = []"
    by (simp add: initial_runtime_def)
  from h r show ?thesis
    using loadTopics_key_reusable [where s = initial_runtime and c = "''c1''"
        and outcome = "Reject (ErrorObj ''down'')"]
    unfolding Let_def by simp
qed

subsection \<open>Which promises are fulfilled and which are rejected\<close>

lemma settle_resume:
  "awaiting s c = Some k \<Longrightarrow>
   settle c outcome s = resume k outcome (s\<lparr>awaiting := (awaiting s)(c := None)\<rparr>)"
  by (simp add: settle_def)

lemma loads_fulfil:
  "promises (resume (K_loadTopics k p) outcome s) p = Some Fulfilled"
  "promises (resume (K_loadTopicMetadata p) outcome s) p = Some Fulfilled"
  "promises (resume (K_loadTopicConfig p) outcome s) p = Some Fulfilled"
  "promises (resume (K_loadMessages tok p) outcome s) p = Some Fulfilled"
  by (simp_all add: Let_def split: sum.splits settlement.splits)

lemma load_failures_recorded:
  "awaited outcome sorted_topics_of = Inl e \<Longrightarrow>
     state (resume (K_loadTopics k p) outcome s) =
       (state s)\<lparr>error := Some (message_or ''Failed to load topics'' e),
                 isLoadingTopics := False, isLoading := False\<rparr>"
  "awaited outcome metadata_of = Inl e \<Longrightarrow>
     state (resume (K_loadTopicMetadata p) outcome s) =
       (state s)\<lparr>error := Some (message_or ''Failed to load topic metadata'' e),
                 isLoadingMetadata := False\<rparr>"
  "awaited outcome config_of = Inl e \<Longrightarrow>
     state (resume (K_loadTopicConfig p) outcome s) =
       (state s)\<lparr>error := Some (message_or ''Failed to load topic config'' e),
                 isLoadingConfig := False\<rparr>"
  "awaited outcome messages_of = Inl e \<Longrightarrow> tok = messageRequestId s \<Longrightarrow>
     state (resume (K_loadMessages tok p) outcome s) =
       (state s)\<lparr>error := Some (message_or ''Failed to load messages'' e),
                 isLoadingMessages := False\<rparr>"
  by (cases outcome; simp add: Let_def topics_failed_def)+

lemma mutations_rethrow:
  "awaited_check outcome ''Failed to create topic'' = Some e \<Longrightarrow>
     promises (resume (K_createTopic_create cn p) outcome s) p = Some (Rejected e)
   \<and> state (resume (K_createTopic_create cn p) outcome s) =
       (state s)\<lparr>error := Some (message_or ''Failed to create topic'' e),
                 isLoadingTopics := False, isLoading := False\<rparr>"
  "awaited outcome sorted_topics_of = Inl e \<Longrightarrow>
     promises (resume (K_createTopic_list p) outcome s) p = Some (Rejected e)
   \<and> state (resume (K_createTopic_list p) outcome s) =
       (state s)\<lparr>error := Some (message_or ''Failed to create topic'' e),
                 isLoadingTopics := False, isLoading := False\<rparr>"
  "awaited_check outcome ''Failed to delete topic'' = Some e \<Longrightarrow>
     promises (resume (K_deleteTopic t p) outcome s) p = Some (Rejected e)
   \<and> state (resume (K_deleteTopic t p) outcome s) =
       (state s)\<lparr>error := Some (message_or ''Failed to delete topic'' e),
                 isLoadingTopics := False, isLoading := False\<rparr>"
  "awaited_check outcome ''Failed to produce message'' = Some e \<Longrightarrow>
     promises (resume (K_produceMessage p) outcome s) p = Some (Rejected e)
   \<and> state (resume (K_produceMessage p) outcome s) =
       (state s)\<lparr>error := Some (message_or ''Failed to produce message'' e),
                 isLoading := False\<rparr>"
  by (simp_all add: topics_failed_def)

lemma start_async_awaiting:
  "awaiting (snd (start_async rc kf s)) (fst (start_async rc kf s)) = Some (kf (next_id s))"
  by simp

lemma settled_1:
  "awaiting s c = Some (K_loadTopics k p) \<longrightarrow>
      promises (settle c outcome s) p = Some Fulfilled"
  by (simp add: settle_resume loads_fulfil del: resume.simps)

lemma settled_2:
  "awaiting s c = Some (K_loadTopicMetadata p) \<longrightarrow>
      promises (settle c outcome s) p = Some Fulfilled"
  by (simp add: settle_resume loads_fulfil del: resume.simps)

lemma settled_3:
  "awaiting s c = Some (K_loadTopicConfig p) \<longrightarrow>
      promises (settle c outcome s) p = Some Fulfilled"
  by (simp add: settle_resume loads_fulfil del: resume.simps)

lemma settled_4:
  "awaiting s c = Some (K_loadMessages tok p) \<longrightarrow>
      promises (settle c outcome s) p = Some Fulfilled"
  by (simp add: settle_resume loads_fulfil del: resume.simps)

lemma settled_5:
  "inFlightRequests s (''loadTopics:'' @ cn) = None \<longrightarrow>
      promises
        (settle (fst (loadTopics cn s)) outcome
           (snd (loadTopics cn s)))
        (fst (loadTopics cn s)) = Some Fulfilled"
  by (simp add: loadTopics_def Let_def split_beta settle_resume loads_fulfil del: resume.simps)

lemma settled_6:
  "promises
        (settle (fst (loadTopicMetadata cn t s)) outcome
           (snd (loadTopicMetadata cn t s)))
        (fst (loadTopicMetadata cn t s)) = Some Fulfilled"
  by (simp add: loadTopicMetadata_def settle_resume loads_fulfil del: resume.simps)

lemma settled_7:
  "promises
        (settle (fst (loadTopicConfig cn t s)) outcome
           (snd (loadTopicConfig cn t s)))
        (fst (loadTopicConfig cn t s)) = Some Fulfilled"
  by (simp add: loadTopicConfig_def settle_resume loads_fulfil del: resume.simps)

lemma settled_8:
  "promises
        (settle (fst (loadMessages cn t opts s)) outcome
           (snd (loadMessages cn t opts s)))
        (fst (loadMessages cn t opts s)) = Some Fulfilled"
  by (simp add: loadMessages_def Let_def settle_resume loads_fulfil del: resume.simps)

lemma settled_9:
  "awaiting s c = Some (K_loadTopics k p) \<and> awaited outcome sorted_topics_of = Inl e \<longrightarrow>
      state (settle c outcome s) =
        (state s)\<lparr>error := Some (message_or ''Failed to load topics'' e),
                  isLoadingTopics := False, isLoading := False\<rparr>"
  by (simp add: settle_resume load_failures_recorded del: resume.simps)

lemma settled_10:
  "awaiting s c = Some (K_loadTopicMetadata p) \<and> awaited outcome metadata_of = Inl e \<longrightarrow>
      state (settle c outcome s) =
        (state s)\<lparr>error := Some (message_or ''Failed to load topic metadata'' e),
                  isLoadingMetadata := False\<rparr>"
  by (simp add: settle_resume load_failures_recorded del: resume.simps)

lemma settled_11:
  "awaiting s c = Some (K_loadTopicConfig p) \<and> awaited outcome config_of = Inl e \<longrightarrow>
      state (settle c outcome s) =
        (state s)\<lparr>error := Some (message_or ''Failed to load topic config'' e),
                  isLoadingConfig := False\<rparr>"
  by (simp add: settle_resume load_failures_recorded del: resume.simps)

lemma settled_12:
  "awaiting s c = Some (K_loadMessages tok p) \<and> awaited outcome messages_of = Inl e
      \<and> tok = messageRequestId s \<longrightarrow>
      state (settle c outcome s) =
        (state s)\<lparr>error := Some (message_or ''Failed to load messages'' e),
                  isLoadingMessages := False\<rparr>"
  by (simp add: settle_resume load_failures_recorded del: resume.simps)

lemma settled_13:
  "awaiting s c = Some (K_createTopic_create cn p)
      \<and> awaited_check outcome ''Failed to create topic'' = Some e \<longrightarrow>
      promises (settle c outcome s) p = Some (Rejected e)
    \<and> state (settle c outcome s) =
        (state s)\<lparr>error := Some (message_or ''Failed to create topic'' e),
                  isLoadingTopics := False, isLoading := False\<rparr>"
  by (simp add: settle_resume mutations_rethrow del: resume.simps)

lemma settled_14:
  "awaiting s c = Some (K_createTopic_list p)
      \<and> awaited outcome sorted_topics_of = Inl e \<longrightarrow>
      promises (settle c outcome s) p = Some (Rejected e)
    \<and> state (settle c outcome s) =
        (state s)\<lparr>error := Some (message_or ''Failed to create topic'' e),
                  isLoadingTopics := False, isLoading := False\<rparr>"
  by (simp add: settle_resume mutations_rethrow del: resume.simps)

lemma settled_15:
  "awaiting s c = Some (K_deleteTopic t p)
      \<and> awaited_check outcome ''Failed to delete topic'' = Some e \<longrightarrow>
      promises (settle c outcome s) p = Some (Rejected e)
    \<and> state (settle c outcome s) =
        (state s)\<lparr>error := Some (message_or ''Failed to delete topic'' e),
                  isLoadingTopics := False, isLoading := False\<rparr>"
  by (simp add: settle_resume mutations_rethrow del: resume.simps)

lemma settled_16:
  "awaiting s c = Some (K_produceMessage p)
      \<and> awaited_check outcome ''Failed to produce message'' = Some e \<longrightarrow>
      promises (settle c outcome s) p = Some (Rejected e)
    \<and> state (settle c outcome s) =
        (state s)\<lparr>error := Some (message_or ''Failed to produce message'' e),
                  isLoading := False\<rparr>"
  by (simp add: settle_resume mutations_rethrow del: resume.simps)

lemma settled_17:
  "promises
        (settle (fst (createTopic cn cfg s)) (Reject e)
           (snd (createTopic cn cfg s)))
        (fst (createTopic cn cfg s)) = Some (Rejected e)"
  by (simp add: createTopic_def settle_resume mutations_rethrow del: resume.simps)

lemma settled_18:
  "promises
        (settle (fst (deleteTopic cn t s)) (Reject e)
           (snd (deleteTopic cn t s)))
        (fst (deleteTopic cn t s)) = Some (Rejected e)"
  by (simp add: deleteTopic_def settle_resume mutations_rethrow del: resume.simps)

lemma settled_19:
  "promises
        (settle (fst (produceMessage cn t msg s)) (Reject e)
           (snd (produceMessage cn t msg s)))
        (fst (produceMessage cn t msg s)) = Some (Rejected e)"
  by (simp add: produceMessage_def settle_resume mutations_rethrow del: resume.simps)

text \<open>
  Claim C9. When the remote call a read operation awaits settles, with any result or any
  rejection, the promise of \<^verbatim>\<open>loadTopics\<close>, \<^verbatim>\<open>loadTopicMetadata\<close>, \<^verbatim>\<open>loadTopicConfig\<close> or
  \<^verbatim>\<open>loadMessages\<close> is fulfilled, never rejected; a failure changes the error field and
  the loading flags only. For \<^verbatim>\<open>createTopic\<close>, \<^verbatim>\<open>deleteTopic\<close> and \<^verbatim>\<open>produceMessage\<close> a
  failure (a rejection, or an outcome record whose success flag is falsy) is recorded in
  the same way and the promise is rejected with the error.
\<close>

theorem reads_resolve_mutations_rethrow:
  "(awaiting s c = Some (K_loadTopics k p) \<longrightarrow>
      promises (settle c outcome s) p = Some Fulfilled)
 \<and> (awaiting s c = Some (K_loadTopicMetadata p) \<longrightarrow>
      promises (settle c outcome s) p = Some Fulfilled)
 \<and> (awaiting s c = Some (K_loadTopicConfig p) \<longrightarrow>
      promises (settle c outcome s) p = Some Fulfilled)
 \<and> (awaiting s c = Some (K_loadMessages tok p) \<longrightarrow>
      promises (settle c outcome s) p = Some Fulfilled)
 \<and> (inFlightRequests s (''loadTopics:'' @ cn) = None \<longrightarrow>
      promises
        (settle (fst (loadTopics cn s)) outcome
           (snd (loadTopics cn s)))
        (fst (loadTopics cn s)) = Some Fulfilled)
 \<and> (promises
        (settle (fst (loadTopicMetadata cn t s)) outcome
           (snd (loadTopicMetadata cn t s)))
        (fst (loadTopicMetadata cn t s)) = Some Fulfilled)
 \<and> (promises
        (settle (fst (loadTopicConfig cn t s)) outcome
           (snd (loadTopicConfig cn t s)))
        (fst (loadTopicConfig cn t s)) = Some Fulfilled)
 \<and> (promises
        (settle (fst (loadMessages cn t opts s)) outcome
           (snd (loadMessages cn t opts s)))
        (fst (loadMessages cn t opts s)) = Some Fulfilled)
 \<and> (awaiting s c = Some (K_loadTopics k p) \<and> awaited outcome sorted_topics_of = Inl e \<longrightarrow>
      state (settle c outcome s) =
        (state s)\<lparr>error := Some (message_or ''Failed to load topics'' e),
                  isLoadingTopics := False, isLoading := False\<rparr>)
 \<and> (awaiting s c = Some (K_loadTopicMetadata p) \<and> awaited outcome metadata_of = Inl e \<longrightarrow>
      state (settle c outcome s) =
        (state s)\<lparr>error := Some (message_or ''Failed to load topic metadata'' e),
                  isLoadingMetadata := False\<rparr>)
 \<and> (awaiting s c = Some (K_loadTopicConfig p) \<and> awaited outcome config_of = Inl e \<longrightarrow>
      state (settle c outcome s) =
        (state s)\<lparr>error := Some (message_or ''Failed to load topic config'' e),
                  isLoadingConfig := False\<rparr>)
 \<and> (awaiting s c = Some (K_loadMessages tok p) \<and> awaited outcome messages_of = Inl e
      \<and> tok = messageRequestId s \<longrightarrow>
      state (settle c outcome s) =
        (state s)\<lparr>error := Some (message_or ''Failed to load messages'' e),
                  isLoadingMessages := False\<rparr>)
 \<and> (awaiting s c = Some (K_createTopic_create cn p)
      \<and> awaited_check outcome ''Failed to create topic'' = Some e \<longrightarrow>
      promises (settle c outcome s) p = Some (Rejected e)
    \<and> state (settle c outcome s) =
        (state s)\<lparr>error := Some (message_or ''Failed to create topic'' e),
                  isLoadingTopics := False, isLoading := False\<rparr>)
 \<and> (awaiting s c = Some (K_createTopic_list p)
      \<and> awaited outcome sorted_topics_of = Inl e \<longrightarrow>
      promises (settle c outcome s) p = Some (Rejected e)
    \<and> state (settle c outcome s) =
        (state s)\<lparr>error := Some (message_or ''Failed to create topic'' e),
                  isLoadingTopics := False, isLoading := False\<rparr>)
 \<and> (awaiting s c = Some (K_deleteTopic t p)
      \<and> awaited_check outcome ''Failed to delete topic'' = Some e \<longrightarrow>
      promises (settle c outcome s) p = Some (Rejected e)
    \<and> state (settle c outcome s) =
        (state s)\<lparr>error := Some (message_or ''Failed to delete topic'' e),
                  isLoadingTopics := False, isLoading := False\<rparr>)
 \<and> (awaiting s c = Some (K_produceMessage p)
      \<and> awaited_check outcome ''Failed to produce message'' = Some e \<longrightarrow>
      promises (settle c outcome s) p = Some (Rejected e)
    \<and> state (settle c outcome s) =
        (state s)\<lparr>error := Some (message_or ''Failed to produce message'' e),
                  isLoading := False\<rparr>)
 \<and> (promises
        (settle (fst (createTopic cn cfg s)) (Reject e)
           (snd (createTopic cn cfg s)))
        (fst (createTopic cn cfg s)) = Some (Rejected e))
 \<and> (promises
        (settle (fst (deleteTopic cn t s)) (Reject e)
           (snd (deleteTopic cn t s)))
        (fst (deleteTopic cn t s)) = Some (Rejected e))
 \<and> (promises
        (settle (fst (produceMessage cn t msg s)) (Reject e)
           (snd (produceMessage cn t msg s)))
        (fst (produceMessage cn t msg s)) = Some (Rejected e))"
  by (intro conjI)
    (rule settled_1 settled_2 settled_3 settled_4 settled_5 settled_6
      settled_7 settled_8 settled_9 settled_10 settled_11 settled_12
      settled_13 settled_14 settled_15 settled_16 settled_17 settled_18
      settled_19)+

lemma busy_runtime_awaiting:
  "awaiting busy_runtime 0 = Some (K_loadTopics ''loadTopics:c'' 0)"
  "awaiting busy_runtime 1 = Some (K_loadTopicMetadata 1)"
  "awaiting busy_runtime 2 = Some (K_loadTopicConfig 2)"
  "awaiting busy_runtime 3 = Some (K_loadMessages 1 3)"
  "awaiting busy_runtime 4 = Some (K_createTopic_create ''c'' 4)"
  "awaiting busy_runtime 5 = Some (K_deleteTopic ''t'' 5)"
  "awaiting busy_runtime 6 = Some (K_produceMessage 6)"
  "messageRequestId busy_runtime = 1"
  by (simp_all add: busy_runtime_def run_def initial_runtime_def loadTopics_def
      loadTopicMetadata_def loadTopicConfig_def loadMessages_def createTopic_def
      deleteTopic_def produceMessage_def Let_def split_beta)

text \<open>An instance: each of the seven operations is pending and its call fails.\<close>

theorem reads_resolve_mutations_rethrow_witness:
  "promises (settle 0 (Reject (ErrorObj ''boom'')) busy_runtime) 0 = Some Fulfilled
 \<and> promises (settle 1 (Reject (ErrorObj ''boom'')) busy_runtime) 1 = Some Fulfilled
 \<and> promises (settle 2 (Reject (ErrorObj ''boom'')) busy_runtime) 2 = Some Fulfilled
 \<and> promises (settle 3 (Reject (ErrorObj ''boom'')) busy_runtime) 3 = Some Fulfilled
 \<and> error (state (settle 1 (Reject (ErrorObj ''boom'')) busy_runtime)) = Some ''boom''
 \<and> promises (settle 4 (Reject (ErrorObj ''boom'')) busy_runtime) 4 = Some (Rejected (ErrorObj ''boom''))
 \<and> promises (settle 5 (Resolve (JObj [(''success'', JBool False)])) busy_runtime) 5
      = Some (Rejected (ErrorObj ''Failed to delete topic''))
 \<and> promises (settle 6 (Reject (Thrown JNull)) busy_runtime) 6 = Some (Rejected (Thrown JNull))
 \<and> error (state (settle 6 (Reject (Thrown JNull)) busy_runtime)) = Some ''Failed to produce message''"
proof -
  note aw = busy_runtime_awaiting
  have c5: "awaited_check (Resolve (JObj [(''success'', JBool False)])) ''Failed to delete topic''
      = Some (ErrorObj ''Failed to delete topic'')"
    by (simp add: check_success_def is_ipc_response_def failure_of_def logical_or_def new_Error_def)
  have r: "awaited (Reject (ErrorObj ''boom'')) metadata_of = Inl (ErrorObj ''boom'')"
    "awaited_check (Reject (ErrorObj ''boom'')) ''Failed to create topic'' = Some (ErrorObj ''boom'')"
    "awaited_check (Reject (Thrown JNull)) ''Failed to produce message'' = Some (Thrown JNull)"
    by simp_all
  show ?thesis
    using
      reads_resolve_mutations_rethrow [where s = busy_runtime and c = 0 and k = "''loadTopics:c''"
        and p = 0 and outcome = "Reject (ErrorObj ''boom'')"]
      reads_resolve_mutations_rethrow [where s = busy_runtime and c = 1 and p = 1
        and outcome = "Reject (ErrorObj ''boom'')" and e = "ErrorObj ''boom''"]
      reads_resolve_mutations_rethrow [where s = busy_runtime and c = 2 and p = 2
        and outcome = "Reject (ErrorObj ''boom'')"]
      reads_resolve_mutations_rethrow [where s = busy_runtime and c = 3 and p = 3 and tok = 1
        and outcome = "Reject (ErrorObj ''boom'')"]
      reads_resolve_mutations_rethrow [where s = busy_runtime and c = 4 and p = 4 and cn = "''c''"
        and outcome = "Reject (ErrorObj ''boom'')" and e = "ErrorObj ''boom''"]
      reads_resolve_mutations_rethrow [where s = busy_runtime and c = 5 and p = 5 and t = "''t''"
        and outcome = "Resolve (JObj [(''success'', JBool False)])"
        and e = "ErrorObj ''Failed to delete topic''"]
      reads_resolve_mutations_rethrow [where s = busy_runtime and c = 6 and p = 6
        and outcome = "Reject (Thrown JNull)" and e = "Thrown JNull"]
      aw c5 r
    by simp
qed

subsection \<open>Normalisation of the result shapes\<close>

lemma settle_loadMessages_current:
  "awaiting s c = Some (K_loadMessages tok p) \<Longrightarrow> tok = messageRequestId s \<Longrightarrow>
   state (settle c outcome s) = messages_commit outcome (state s)"
  using settle_loadMessages [of s c tok p outcome] by simp

lemma settle_loadTopicMetadata:
  "awaiting s c = Some (K_loadTopicMetadata p) \<Longrightarrow>
   state (settle c outcome s) =
     (case awaited outcome metadata_of of
        Inr metadata \<Rightarrow> (state s)\<lparr>topicMetadata := metadata, isLoadingMetadata := False\<rparr>
      | Inl e \<Rightarrow> (state s)\<lparr>error := Some (message_or ''Failed to load topic metadata'' e),
                           isLoadingMetadata := False\<rparr>)"
  by (simp add: settle_resume split: sum.splits)

lemma settle_loadTopicConfig:
  "awaiting s c = Some (K_loadTopicConfig p) \<Longrightarrow>
   state (settle c outcome s) =
     (case awaited outcome config_of of
        Inr config \<Rightarrow> (state s)\<lparr>topicConfig := config, isLoadingConfig := False\<rparr>
      | Inl e \<Rightarrow> (state s)\<lparr>error := Some (message_or ''Failed to load topic config'' e),
                           isLoadingConfig := False\<rparr>)"
  by (simp add: settle_resume split: sum.splits)

lemma not_ipc_response_array [simp]: "\<not> is_ipc_response (JArr xs)"
  by (simp add: is_ipc_response_def)

lemma messages_of_shapes:
  "is_ipc_response r \<Longrightarrow> truthy (get_property r ''success'') \<Longrightarrow>
     optional_chain (get_property r ''data'') ''messages'' = JArr xs \<Longrightarrow>
     messages_of r = Inr (JArr xs)"
  "messages_of (JArr xs) = Inr (JArr xs)"
  "\<not> is_ipc_response r \<Longrightarrow> \<not> isArray r \<Longrightarrow> optional_chain r ''messages'' = JArr xs \<Longrightarrow>
     messages_of r = Inr (JArr xs)"
  by (simp_all add: messages_of_def nullish_coalesce_def nullish_def)

lemma sorted_topics_of_shapes:
  "is_ipc_response r \<Longrightarrow> truthy (get_property r ''success'') \<Longrightarrow>
     get_property r ''data'' = JArr xs \<Longrightarrow> sorted_topics_of r = Inr (array_sort xs)"
  "sorted_topics_of (JArr xs) = Inr (array_sort xs)"
  by (simp_all add: sorted_topics_of_def nullish_coalesce_def nullish_def sort_method_def)

lemma metadata_of_shapes:
  "is_ipc_response r \<Longrightarrow> truthy (get_property r ''success'') \<Longrightarrow>
     metadata_of r = Inr (get_property r ''data'')"
  "\<not> is_ipc_response m \<Longrightarrow> metadata_of m = Inr m"
  by (simp_all add: metadata_of_def)

lemma config_of_shapes:
  "is_ipc_response r \<Longrightarrow> truthy (get_property r ''success'') \<Longrightarrow>
     get_property r ''data'' = JArr xs \<Longrightarrow> config_of r = Inr (JArr xs)"
  "config_of (JArr xs) = Inr (JArr xs)"
  by (simp_all add: config_of_def nullish_coalesce_def nullish_def)

lemma failed_response:
  assumes "is_ipc_response r" and "\<not> truthy (get_property r ''success'')"
  shows "messages_of r = Inl (failure_of r ''Failed to load messages'')"
    and "sorted_topics_of r = Inl (failure_of r ''Failed to load topics'')"
    and "metadata_of r = Inl (failure_of r ''Failed to load topic metadata'')"
    and "config_of r = Inl (failure_of r ''Failed to load topic config'')"
  using assms by (simp_all add: messages_of_def sorted_topics_of_def metadata_of_def config_of_def)

lemma failure_message:
  "message_or fallback (failure_of r fallback) =
     to_string (logical_or (get_property r ''error'') (JStr fallback))"
  by (simp add: failure_of_def new_Error_def)

lemma shape_1:
  "awaiting s c = Some (K_loadMessages tok p) \<and> tok = messageRequestId s
      \<and> is_ipc_response env \<and> truthy (get_property env ''success'')
      \<and> optional_chain (get_property env ''data'') ''messages'' = JArr xs \<longrightarrow>
      state (settle c (Resolve env) s) = (state s)\<lparr>messages := JArr xs, isLoadingMessages := False\<rparr>"
  by (simp add: settle_loadMessages_current messages_commit_def messages_of_shapes)

lemma shape_2:
  "awaiting s c = Some (K_loadMessages tok p) \<and> tok = messageRequestId s \<longrightarrow>
      state (settle c (Resolve (JArr xs)) s) = (state s)\<lparr>messages := JArr xs, isLoadingMessages := False\<rparr>"
  by (simp add: settle_loadMessages_current messages_commit_def messages_of_shapes)

lemma shape_3:
  "awaiting s c = Some (K_loadMessages tok p) \<and> tok = messageRequestId s
      \<and> \<not> is_ipc_response holder \<and> \<not> isArray holder
      \<and> optional_chain holder ''messages'' = JArr xs \<longrightarrow>
      state (settle c (Resolve holder) s) = (state s)\<lparr>messages := JArr xs, isLoadingMessages := False\<rparr>"
  by (simp add: settle_loadMessages_current messages_commit_def messages_of_shapes)

lemma shape_4:
  "awaiting s c = Some (K_loadTopics k p)
      \<and> is_ipc_response env \<and> truthy (get_property env ''success'')
      \<and> get_property env ''data'' = JArr xs \<longrightarrow>
      state (settle c (Resolve env) s) =
        (state s)\<lparr>topics := array_sort xs, isLoadingTopics := False, isLoading := False\<rparr>"
  by (simp add: settle_loadTopics_simps topics_commit_def sorted_topics_of_shapes)

lemma shape_5:
  "awaiting s c = Some (K_loadTopics k p) \<longrightarrow>
      state (settle c (Resolve (JArr xs)) s) =
        (state s)\<lparr>topics := array_sort xs, isLoadingTopics := False, isLoading := False\<rparr>"
  by (simp add: settle_loadTopics_simps topics_commit_def sorted_topics_of_shapes)

lemma shape_6:
  "awaiting s c = Some (K_loadTopicMetadata p)
      \<and> is_ipc_response env \<and> truthy (get_property env ''success'')
      \<and> get_property env ''data'' = m \<longrightarrow>
      state (settle c (Resolve env) s) = (state s)\<lparr>topicMetadata := m, isLoadingMetadata := False\<rparr>"
  by (auto simp add: settle_loadTopicMetadata metadata_of_shapes)

lemma shape_7:
  "awaiting s c = Some (K_loadTopicMetadata p) \<and> \<not> is_ipc_response m \<longrightarrow>
      state (settle c (Resolve m) s) = (state s)\<lparr>topicMetadata := m, isLoadingMetadata := False\<rparr>"
  by (simp add: settle_loadTopicMetadata metadata_of_shapes)

lemma shape_8:
  "awaiting s c = Some (K_loadTopicConfig p)
      \<and> is_ipc_response env \<and> truthy (get_property env ''success'')
      \<and> get_property env ''data'' = JArr xs \<longrightarrow>
      state (settle c (Resolve env) s) = (state s)\<lparr>topicConfig := JArr xs, isLoadingConfig := False\<rparr>"
  by (simp add: settle_loadTopicConfig config_of_shapes)

lemma shape_9:
  "awaiting s c = Some (K_loadTopicConfig p) \<longrightarrow>
      state (settle c (Resolve (JArr xs)) s) = (state s)\<lparr>topicConfig := JArr xs, isLoadingConfig := False\<rparr>"
  by (simp add: settle_loadTopicConfig config_of_shapes)

lemma shape_10:
  "awaiting s c = Some (K_loadMessages tok p) \<and> tok = messageRequestId s
      \<and> is_ipc_response r \<and> \<not> truthy (get_property r ''success'') \<longrightarrow>
      state (settle c (Resolve r) s) =
        (state s)\<lparr>error := Some (to_string (logical_or (get_property r ''error'')
                                              (JStr ''Failed to load messages''))),
                  isLoadingMessages := False\<rparr>"
  by (simp add: settle_loadMessages_current messages_commit_def failed_response failure_message)

lemma shape_11:
  "awaiting s c = Some (K_loadTopics k p)
      \<and> is_ipc_response r \<and> \<not> truthy (get_property r ''success'') \<longrightarrow>
      state (settle c (Resolve r) s) =
        (state s)\<lparr>error := Some (to_string (logical_or (get_property r ''error'')
                                              (JStr ''Failed to load topics''))),
                  isLoadingTopics := False, isLoading := False\<rparr>"
  by (simp add: settle_loadTopics_simps topics_commit_def topics_failed_def failed_response
      failure_message)

lemma shape_12:
  "awaiting s c = Some (K_loadTopicMetadata p)
      \<and> is_ipc_response r \<and> \<not> truthy (get_property r ''success'') \<longrightarrow>
      state (settle c (Resolve r) s) =
        (state s)\<lparr>error := Some (to_string (logical_or (get_property r ''error'')
                                              (JStr ''Failed to load topic metadata''))),
                  isLoadingMetadata := False\<rparr>"
  by (simp add: settle_loadTopicMetadata failed_response failure_message)

lemma shape_13:
  "awaiting s c = Some (K_loadTopicConfig p)
      \<and> is_ipc_response r \<and> \<not> truthy (get_property r ''success'') \<longrightarrow>
      state (settle c (Resolve r) s) =
        (state s)\<lparr>error := Some (to_string (logical_or (get_property r ''error'')
                                              (JStr ''Failed to load topic config''))),
                  isLoadingConfig := False\<rparr>"
  by (simp add: settle_loadTopicConfig failed_response failure_message)

text \<open>
  Claim C6, as the code has it. While it is current, \<^verbatim>\<open>loadMessages\<close> commits the same
  messages for an outcome record with a truthy success flag whose \<^verbatim>\<open>data.messages\<close> is the
  page, for the bare page, and for any other object holding the page under
  \<^verbatim>\<open>messages\<close>. \<^verbatim>\<open>loadTopics\<close>, \<^verbatim>\<open>loadTopicMetadata\<close> and \<^verbatim>\<open>loadTopicConfig\<close> know two
  shapes, the outcome record with the payload under \<^verbatim>\<open>data\<close> and the bare payload, and
  commit the same value for both. An outcome record whose success flag is falsy makes
  each of the four record an error and commit no payload (\<^verbatim>\<open>loadMessages\<close>: when the
  call is still current).
\<close>

theorem result_shapes_normalised:
  "(awaiting s c = Some (K_loadMessages tok p) \<and> tok = messageRequestId s
      \<and> is_ipc_response env \<and> truthy (get_property env ''success'')
      \<and> optional_chain (get_property env ''data'') ''messages'' = JArr xs \<longrightarrow>
      state (settle c (Resolve env) s) = (state s)\<lparr>messages := JArr xs, isLoadingMessages := False\<rparr>)
 \<and> (awaiting s c = Some (K_loadMessages tok p) \<and> tok = messageRequestId s \<longrightarrow>
      state (settle c (Resolve (JArr xs)) s) = (state s)\<lparr>messages := JArr xs, isLoadingMessages := False\<rparr>)
 \<and> (awaiting s c = Some (K_loadMessages tok p) \<and> tok = messageRequestId s
      \<and> \<not> is_ipc_response holder \<and> \<not> isArray holder
      \<and> optional_chain holder ''messages'' = JArr xs \<longrightarrow>
      state (settle c (Resolve holder) s) = (state s)\<lparr>messages := JArr xs, isLoadingMessages := False\<rparr>)
 \<and> (awaiting s c = Some (K_loadTopics k p)
      \<and> is_ipc_response env \<and> truthy (get_property env ''success'')
      \<and> get_property env ''data'' = JArr xs \<longrightarrow>
      state (settle c (Resolve env) s) =
        (state s)\<lparr>topics := array_sort xs, isLoadingTopics := False, isLoading := False\<rparr>)
 \<and> (awaiting s c = Some (K_loadTopics k p) \<longrightarrow>
      state (settle c (Resolve (JArr xs)) s) =
        (state s)\<lparr>topics := array_sort xs, isLoadingTopics := False, isLoading := False\<rparr>)
 \<and> (awaiting s c = Some (K_loadTopicMetadata p)
      \<and> is_ipc_response env \<and> truthy (get_property env ''success'')
      \<and> get_property env ''data'' = m \<longrightarrow>
      state (settle c (Resolve env) s) = (state s)\<lparr>topicMetadata := m, isLoadingMetadata := False\<rparr>)
 \<and> (awaiting s c = Some (K_loadTopicMetadata p) \<and> \<not> is_ipc_response m \<longrightarrow>
      state (settle c (Resolve m) s) = (state s)\<lparr>topicMetadata := m, isLoadingMetadata := False\<rparr>)
 \<and> (awaiting s c = Some (K_loadTopicConfig p)
      \<and> is_ipc_response env \<and> truthy (get_property env ''success'')
      \<and> get_property env ''data'' = JArr xs \<longrightarrow>
      state (settle c (Resolve env) s) = (state s)\<lparr>topicConfig := JArr xs, isLoadingConfig := False\<rparr>)
 \<and> (awaiting s c = Some (K_loadTopicConfig p) \<longrightarrow>
      state (settle c (Resolve (JArr xs)) s) = (state s)\<lparr>topicConfig := JArr xs, isLoadingConfig := False\<rparr>)
 \<and> (awaiting s c = Some (K_loadMessages tok p) \<and> tok = messageRequestId s
      \<and> is_ipc_response r \<and> \<not> truthy (get_property r ''success'') \<longrightarrow>
      state (settle c (Resolve r) s) =
        (state s)\<lparr>error := Some (to_string (logical_or (get_property r ''error'')
                                              (JStr ''Failed to load messages''))),
                  isLoadingMessages := False\<rparr>)
 \<and> (awaiting s c = Some (K_loadTopics k p)
      \<and> is_ipc_response r \<and> \<not> truthy (get_property r ''success'') \<longrightarrow>
      state (settle c (Resolve r) s) =
        (state s)\<lparr>error := Some (to_string (logical_or (get_property r ''error'')
                                              (JStr ''Failed to load topics''))),
                  isLoadingTopics := False, isLoading := False\<rparr>)
 \<and> (awaiting s c = Some (K_loadTopicMetadata p)
      \<and> is_ipc_response r \<and> \<not> truthy (get_property r ''success'') \<longrightarrow>
      state (settle c (Resolve r) s) =
        (state s)\<lparr>error := Some (to_string (logical_or (get_property r ''error'')
                                              (JStr ''Failed to load topic metadata''))),
                  isLoadingMetadata := False\<rparr>)
 \<and> (awaiting s c = Some (K_loadTopicConfig p)
      \<and> is_ipc_response r \<and> \<not> truthy (get_property r ''success'') \<longrightarrow>
      state (settle c (Resolve r) s) =
        (state s)\<lparr>error := Some (to_string (logical_or (get_property r ''error'')
                                              (JStr ''Failed to load topic config''))),
                  isLoadingConfig := False\<rparr>)"
  by (intro conjI)
    (rule shape_1 shape_2 shape_3 shape_4 shape_5 shape_6
      shape_7 shape_8 shape_9 shape_10 shape_11 shape_12
      shape_13)+

lemma one_topics_load_awaiting:
  "awaiting one_topics_load 0 = Some (K_loadTopics ''loadTopics:c'' 0)"
  by (simp add: one_topics_load_def loadTopics_def initial_runtime_def Let_def split_beta)

lemma one_messages_load_awaiting:
  "awaiting one_messages_load 0 = Some (K_loadMessages 1 0)"
  "messageRequestId one_messages_load = 1"
  by (simp_all add: one_messages_load_def loadMessages_def initial_runtime_def Let_def)

text \<open>An instance: the three shapes of one page, two shapes of one topic list, two failures.\<close>

theorem result_shapes_normalised_witness:
  "messages (state (settle 0
      (Resolve (JObj [(''success'', JBool True),
                      (''data'', JObj [(''messages'', JArr [JStr ''m1'']), (''hasMore'', JBool False)])]))
      one_messages_load)) = JArr [JStr ''m1'']
 \<and> messages (state (settle 0 (Resolve (JArr [JStr ''m1''])) one_messages_load)) = JArr [JStr ''m1'']
 \<and> messages (state (settle 0 (Resolve (JObj [(''messages'', JArr [JStr ''m1''])]))
      one_messages_load)) = JArr [JStr ''m1'']
 \<and> error (state (settle 0 (Resolve (JObj [(''success'', JBool False), (''error'', JStr ''no broker'')]))
      one_messages_load)) = Some ''no broker''
 \<and> messages (state (settle 0 (Resolve (JObj [(''success'', JBool False), (''error'', JStr ''no broker'')]))
      one_messages_load)) = messages (state one_messages_load)
 \<and> topics (state (settle 0 (Resolve (JObj [(''success'', JBool True), (''data'', JArr [JStr ''a''])]))
      one_topics_load)) = array_sort [JStr ''a'']
 \<and> topics (state (settle 0 (Resolve (JArr [JStr ''a''])) one_topics_load)) = array_sort [JStr ''a'']
 \<and> error (state (settle 0 (Resolve (JObj [(''success'', JBool False)])) one_topics_load))
      = Some ''Failed to load topics''"
proof -
  note aw = one_messages_load_awaiting one_topics_load_awaiting
  have h:
    "is_ipc_response (JObj [(''success'', JBool True),
        (''data'', JObj [(''messages'', JArr [JStr ''m1'']), (''hasMore'', JBool False)])])"
    "optional_chain (get_property (JObj [(''success'', JBool True),
        (''data'', JObj [(''messages'', JArr [JStr ''m1'']), (''hasMore'', JBool False)])]) ''data'')
        ''messages'' = JArr [JStr ''m1'']"
    "\<not> is_ipc_response (JObj [(''messages'', JArr [JStr ''m1''])])"
    "optional_chain (JObj [(''messages'', JArr [JStr ''m1''])]) ''messages'' = JArr [JStr ''m1'']"
    "is_ipc_response (JObj [(''success'', JBool False), (''error'', JStr ''no broker'')])"
    "is_ipc_response (JObj [(''success'', JBool True), (''data'', JArr [JStr ''a''])])"
    "is_ipc_response (JObj [(''success'', JBool False)])"
    by (simp_all add: is_ipc_response_def optional_chain_def nullish_def)
  show ?thesis
    using
      result_shapes_normalised [where s = one_messages_load and c = 0 and tok = 1 and p = 0
        and xs = "[JStr ''m1'']"
        and env = "JObj [(''success'', JBool True),
              (''data'', JObj [(''messages'', JArr [JStr ''m1'']), (''hasMore'', JBool False)])]"
        and holder = "JObj [(''messages'', JArr [JStr ''m1''])]"
        and r = "JObj [(''success'', JBool False), (''error'', JStr ''no broker'')]"]
      result_shapes_normalised [where s = one_topics_load and c = 0 and k = "''loadTopics:c''"
        and p = 0 and xs = "[JStr ''a'']"
        and env = "JObj [(''success'', JBool True), (''data'', JArr [JStr ''a''])]"
        and r = "JObj [(''success'', JBool False)]"]
      aw h
    by (simp add: logical_or_def)
qed

text \<open>
  The claim as stated fails for \<^verbatim>\<open>loadTopics\<close>: the bare list is committed, the same list
  held in an object under a field is not; \<^verbatim>\<open>sort\<close> is called on the object, the TypeError
  is caught and recorded, and the topic list stays as it was.
\<close>

theorem result_shapes_counterexample:
  "topics (state (settle 0 (Resolve (JArr [JStr ''a''])) one_topics_load)) = [JStr ''a'']
 \<and> topics (state (settle 0 (Resolve (JObj [(''topics'', JArr [JStr ''a''])])) one_topics_load)) = []
 \<and> error (state (settle 0 (Resolve (JObj [(''topics'', JArr [JStr ''a''])])) one_topics_load)) \<noteq> None"
proof -
  have s: "sorted_topics_of (JArr [JStr ''a'']) = Inr [JStr ''a'']"
    by (simp add: sorted_topics_of_shapes array_sort_def)
  have t: "sorted_topics_of (JObj [(''topics'', JArr [JStr ''a''])])
      = Inl (ErrorObj ''topics.sort is not a function'')"
    by (simp add: sorted_topics_of_def is_ipc_response_def sort_method_def)
  have i: "topics (state one_topics_load) = []"
    by (simp add: one_topics_load_def loadTopics_def initial_runtime_def initial_state_def
        Let_def split_beta)
  show ?thesis
    by (simp add: settle_loadTopics_simps [OF one_topics_load_awaiting] topics_commit_def
        topics_failed_def s t i)
qed

section \<open>Properties of the connection store\<close>



lemma assign_property_accessor:
  "m ''__proto__'' = None \<Longrightarrow> assign_property m ''__proto__'' v = m"
  by (simp add: assign_property_def)

lemma uuid_not_accessor: "length u = 36 \<Longrightarrow> u \<noteq> ''__proto__'' \<and> u \<noteq> []"
  by auto








text \<open>
  A save with a non-empty ordinary id that has no record returns, and stores under that
  id, a record with both timestamps the current time. A save with the empty string as id
  behaves as the save without an id.
\<close>

lemma save_unknown_ordinary_id:
  assumes "input_id c = Some i" and "i \<noteq> []" and "i \<noteq> ''__proto__''" and "m i = None"
  shows "save u now c m =
     (\<lparr>conn_id = i, profile = input_profile c, createdAt = now, updatedAt = now\<rparr>,
      m(i \<mapsto> \<lparr>conn_id = i, profile = input_profile c, createdAt = now, updatedAt = now\<rparr>))"
  using assms by (simp add: save_def Let_def assign_property_def)

lemma save_empty_id_as_absent:
  assumes "input_id c = Some []"
  shows "save u now c m = save u now (c\<lparr>input_id := None\<rparr>) m"
    and "conn_id (fst (save u now c m)) = u"
    and "length u = 36 \<Longrightarrow> snd (save u now c m) = m(u \<mapsto> fst (save u now c m))"
    and "length u = 36 \<Longrightarrow> snd (save u now c m) [] = m []"
  using assms uuid_not_accessor [of u]
  by (auto simp add: save_def Let_def assign_property_def)

text \<open>
  Claim C10. A save with an unknown id is to store a new record under that id. At the
  unknown id \<^verbatim>\<open>__proto__\<close> the code does not: \<^verbatim>\<open>save\<close> returns a record carrying that
  id, with both timestamps the current time, but the assignment reaches the prototype
  accessor, so the store keeps exactly its old contents and holds no record under that
  id.
\<close>

theorem save_unknown_id_accessor_name:
  "input_id proto_id_profile = Some ''__proto__''
 \<and> [''a'' \<mapsto> stored_profile] ''__proto__'' = None
 \<and> fst (save fresh_uuid 200 proto_id_profile [''a'' \<mapsto> stored_profile])
     = \<lparr>conn_id = ''__proto__'', profile = (), createdAt = 200, updatedAt = 200\<rparr>
 \<and> snd (save fresh_uuid 200 proto_id_profile [''a'' \<mapsto> stored_profile])
     = [''a'' \<mapsto> stored_profile]
 \<and> snd (save fresh_uuid 200 proto_id_profile [''a'' \<mapsto> stored_profile]) ''__proto__'' = None"
  by (simp add: save_def Let_def assign_property_def proto_id_profile_def)

text \<open>
  Claim C8, as the code has it. The store file exists and \<^verbatim>\<open>JSON.parse\<close> rejects its
  text. If unlinking succeeds, the file is gone before the store is opened and the store
  opens with the empty connection mapping, without raising. If unlinking fails, the
  failure is swallowed: the file stays and the store is opened on it, with whatever the
  library then does. A warning is printed in both cases.
\<close>

theorem corrupted_store_recovery:
  "(store_path d = Some f \<and> \<not> json_valid f \<and> removable d \<longrightarrow>
      store_path (fst (prevalidate d)) = None
    \<and> ConnectionStore d = Inr Map.empty)
 \<and> (store_path d = Some f \<and> \<not> json_valid f \<and> \<not> removable d \<longrightarrow>
      fst (prevalidate d) = d
    \<and> ConnectionStore d = new_Store d)
 \<and> (store_path d = Some f \<and> \<not> json_valid f \<longrightarrow>
      snd (prevalidate d) = [''Connection store encrypted with different key, resetting...''])"
  by (simp add: prevalidate_def ConnectionStore_def new_Store_def)

text \<open>An instance: a corrupted file that can be unlinked, and one that cannot.\<close>

theorem corrupted_store_recovery_witness:
  "ConnectionStore \<lparr>store_path = Some corrupted_file, readable = True, removable = True\<rparr>
     = Inr Map.empty
 \<and> store_path (fst (prevalidate
       \<lparr>store_path = Some corrupted_file, readable = True, removable = True\<rparr>)) = None
 \<and> fst (prevalidate \<lparr>store_path = Some corrupted_file, readable = True, removable = False\<rparr>)
     = \<lparr>store_path = Some corrupted_file, readable = True, removable = False\<rparr>"
  using corrupted_store_recovery [where d = "\<lparr>store_path = Some corrupted_file, readable = True,
        removable = True\<rparr>" and f = corrupted_file]
    corrupted_store_recovery [where d = "\<lparr>store_path = Some corrupted_file, readable = True,
        removable = False\<rparr>" and f = corrupted_file]
  by (simp add: corrupted_file_def)

text \<open>
  The claim as stated fails when unlinking fails: the corrupted file is left in place and,
  the library being unable to read it, constructing the store raises.
\<close>

theorem corrupted_store_recovery_counterexample:
  "ConnectionStore \<lparr>store_path = Some corrupted_file, readable = True, removable = False\<rparr>
     = Inl StoreUnreadable
 \<and> store_path (fst (prevalidate
       \<lparr>store_path = Some corrupted_file, readable = True, removable = False\<rparr>))
     = Some corrupted_file"
  by (simp add: ConnectionStore_def prevalidate_def new_Store_def corrupted_file_def)

end
